theory Spec2Isabelle
  imports Complex_Main "HOL-Library.Multiset"
begin

section \<open>Python strings and the regular expressions of the report scripts\<close>

text \<open>
  The report scripts under \<^verbatim>\<open>src/AWS\<close> read HTML documents as Python strings and take them
  apart with the \<^verbatim>\<open>re\<close> module. A document is modelled as a \<^typ>\<open>string\<close>, a list of
  8-bit characters read as the code points 0 to 255. Every pattern of the scripts is made of
  ASCII characters only, and on these code points \<^verbatim>\<open>re.IGNORECASE\<close> identifies an
  ASCII letter of a pattern with its two cases and with nothing else, so folding the ASCII
  capitals is all that case-insensitive matching needs.
\<close>

definition lower_ascii :: "char \<Rightarrow> char" where
  "lower_ascii c =
     (case map_of (zip ''ABCDEFGHIJKLMNOPQRSTUVWXYZ'' ''abcdefghijklmnopqrstuvwxyz'') c of
        Some d \<Rightarrow> d
      | None \<Rightarrow> c)"

text \<open>
  Whitespace as \<^verbatim>\<open>str.strip()\<close> and the class \<^verbatim>\<open>\s\<close> see it on code points below 256:
  tab, line feed, vertical tab, form feed, carriage return, the four separators 28 to 31,
  space, NEL (133) and the no-break space (160).
\<close>

definition is_space :: "char \<Rightarrow> bool" where
  "is_space c \<longleftrightarrow> (of_char c :: nat) \<in> set [9, 10, 11, 12, 13, 28, 29, 30, 31, 32, 133, 160]"

text \<open>The class \<^verbatim>\<open>[0-9]\<close>.\<close>

definition is_digit :: "char \<Rightarrow> bool" where
  "is_digit c \<longleftrightarrow> c \<in> set ''0123456789''"

text \<open>\<^verbatim>\<open>s.startswith(p)\<close>, and the same test under \<^verbatim>\<open>re.IGNORECASE\<close>.\<close>

fun startswith :: "string \<Rightarrow> string \<Rightarrow> bool" where
  "startswith s [] = True"
| "startswith [] (a # p) = False"
| "startswith (c # s) (a # p) = (c = a \<and> startswith s p)"

fun startswith_ci :: "string \<Rightarrow> string \<Rightarrow> bool" where
  "startswith_ci s [] = True"
| "startswith_ci [] (a # p) = False"
| "startswith_ci (c # s) (a # p) = (lower_ascii c = lower_ascii a \<and> startswith_ci s p)"

text \<open>\<^verbatim>\<open>s.strip()\<close>: leading and trailing whitespace removed.\<close>

definition strip :: "string \<Rightarrow> string" where
  "strip s = rev (dropWhile is_space (rev (dropWhile is_space s)))"

text \<open>\<^verbatim>\<open>p in s\<close> for strings: \<open>p\<close> occurs somewhere in \<open>s\<close>.\<close>

fun contains :: "string \<Rightarrow> string \<Rightarrow> bool" where
  "contains [] p = (p = [])"
| "contains (c # s) p = (startswith (c # s) p \<or> contains s p)"

subsection \<open>Matching at a position\<close>

text \<open>
  A pattern is modelled by what it does at one position of the subject: \<open>m s\<close> is
  \<open>None\<close> when the pattern does not match at the start of \<open>s\<close>, and \<open>Some (g, n)\<close> when it
  does, \<open>n\<close> being the number of characters the match consumes and \<open>g\<close> the text of its
  group (of the whole match for a pattern without a group). The patterns of the scripts are
  deterministic at a position (a literal, then the shortest stretch up to a closing literal),
  so the first way of matching that the backtracking engine finds is the one computed here.
\<close>

type_synonym matcher = "string \<Rightarrow> (string \<times> nat) option"

text \<open>
  The tail of a pattern after a lazy group: a literal, an alternative of literals tried from
  left to right (\<^verbatim>\<open>(?:<br>|</div>|</h3>)\<close>), and \<^verbatim>\<open></div>\s*</div>\<close>. Each returns the
  number of characters it consumes.
\<close>

fun alt :: "string list \<Rightarrow> string \<Rightarrow> nat option" where
  "alt [] s = None"
| "alt (p # ps) s = (if startswith s p then Some (length p) else alt ps s)"

definition lit :: "string \<Rightarrow> string \<Rightarrow> nat option" where
  "lit p s = alt [p] s"

definition close_div_pair :: "string \<Rightarrow> nat option" where
  "close_div_pair s =
     (if startswith s ''</div>'' then
        (let w = takeWhile is_space (drop 6 s) in
         if startswith (drop (6 + length w) s) ''</div>'' then Some (12 + length w) else None)
      else None)"

text \<open>
  The lazy group \<^verbatim>\<open>(.*?)\<close> under \<^verbatim>\<open>re.DOTALL\<close>, followed by the tail \<open>t\<close>: the shortest
  stretch after which the tail matches. The result is the stretch and the number of
  characters consumed by stretch and tail together.
\<close>

fun lazy_until :: "(string \<Rightarrow> nat option) \<Rightarrow> string \<Rightarrow> (string \<times> nat) option" where
  "lazy_until t [] = (case t [] of Some n \<Rightarrow> Some ([], n) | None \<Rightarrow> None)"
| "lazy_until t (c # cs) =
     (case t (c # cs) of
        Some n \<Rightarrow> Some ([], n)
      | None \<Rightarrow> (case lazy_until t cs of Some (g, n) \<Rightarrow> Some (c # g, Suc n) | None \<Rightarrow> None))"

text \<open>A literal, case-insensitively: the six marker patterns of \<^verbatim>\<open>count_checks\<close>.\<close>

definition literal_ci :: "string \<Rightarrow> matcher" where
  "literal_ci p s = (if startswith_ci s p then Some (take (length p) s, length p) else None)"

text \<open>\<^verbatim>\<open>p(.*?)t\<close>: the literal \<open>p\<close>, the lazy group, the tail \<open>t\<close>.\<close>

definition between :: "string \<Rightarrow> (string \<Rightarrow> nat option) \<Rightarrow> matcher" where
  "between p t s =
     (if startswith s p then
        (case lazy_until t (drop (length p) s) of
           Some (g, n) \<Rightarrow> Some (g, length p + n)
         | None \<Rightarrow> None)
      else None)"

text \<open>
  \<^verbatim>\<open>p[^>]*>(.*?)t\<close> and \<^verbatim>\<open>p.*?>(.*?)t\<close>: an opening tag that starts with \<open>p\<close> and runs to
  the next \<^verbatim>\<open>>\<close>, then the lazy group and the tail. Both ways of writing the
  inside of the tag stop at the first \<^verbatim>\<open>>\<close>.
\<close>

definition open_tag_between :: "string \<Rightarrow> (string \<Rightarrow> nat option) \<Rightarrow> matcher" where
  "open_tag_between p t s =
     (if startswith s p then
        (let a = takeWhile (\<lambda>c. c \<noteq> CHR ''>'') (drop (length p) s) in
         case drop (length p + length a) s of
           [] \<Rightarrow> None
         | _ # r \<Rightarrow>
             (case lazy_until t r of
                Some (g, n) \<Rightarrow> Some (g, length p + length a + 1 + n)
              | None \<Rightarrow> None))
      else None)"

text \<open>\<^verbatim>\<open><[^>]+>\<close>: a tag with at least one character inside.\<close>

definition tag :: matcher where
  "tag s =
     (case s of
        [] \<Rightarrow> None
      | c # r \<Rightarrow>
          (if c = CHR ''<'' then
             (let a = takeWhile (\<lambda>c. c \<noteq> CHR ''>'') r in
              if a \<noteq> [] \<and> drop (length a) r \<noteq> [] then Some (take (length a + 2) s, length a + 2)
              else None)
           else None))"

text \<open>\<^verbatim>\<open>p([0-9]+)\<close>: the literal \<open>p\<close> and the longest run of digits, which must not be empty.\<close>

definition prefix_digits :: "string \<Rightarrow> matcher" where
  "prefix_digits p s =
     (if startswith s p then
        (let d = takeWhile is_digit (drop (length p) s) in
         if d = [] then None else Some (d, length p + length d))
      else None)"

subsection \<open>Scanning the subject\<close>

text \<open>
  \<^verbatim>\<open>re.search\<close> tries the pattern at each position from the left and stops at the first
  match; the model returns the group of that match.
\<close>

fun re_search :: "matcher \<Rightarrow> string \<Rightarrow> string option" where
  "re_search m [] = (case m [] of Some (g, n) \<Rightarrow> Some g | None \<Rightarrow> None)"
| "re_search m (c # cs) = (case m (c # cs) of Some (g, n) \<Rightarrow> Some g | None \<Rightarrow> re_search m cs)"

text \<open>
  \<^verbatim>\<open>re.findall\<close> collects the non-overlapping matches from left to right: after a match that
  consumed \<open>n\<close> characters the scan goes on behind it, which the counter \<open>k\<close> of characters
  still to skip does. No pattern of the scripts matches the empty string.
\<close>

fun findall_from :: "matcher \<Rightarrow> nat \<Rightarrow> string \<Rightarrow> string list" where
  "findall_from m k [] = []"
| "findall_from m (Suc k) (c # cs) = findall_from m k cs"
| "findall_from m 0 (c # cs) =
     (case m (c # cs) of
        Some (g, n) \<Rightarrow> g # findall_from m (n - 1) cs
      | None \<Rightarrow> findall_from m 0 cs)"

definition re_findall :: "matcher \<Rightarrow> string \<Rightarrow> string list" where
  "re_findall m s = findall_from m 0 s"

text \<open>\<^verbatim>\<open>re.sub(pattern, '', s)\<close>: the same scan, the matches left out.\<close>

fun sub_from :: "matcher \<Rightarrow> nat \<Rightarrow> string \<Rightarrow> string" where
  "sub_from m k [] = []"
| "sub_from m (Suc k) (c # cs) = sub_from m k cs"
| "sub_from m 0 (c # cs) =
     (case m (c # cs) of
        Some (g, n) \<Rightarrow> sub_from m (n - 1) cs
      | None \<Rightarrow> c # sub_from m 0 cs)"

definition re_sub_empty :: "matcher \<Rightarrow> string \<Rightarrow> string" where
  "re_sub_empty m s = sub_from m 0 s"

text \<open>\<^verbatim>\<open>re.sub(r'<[^>]+>', '', s)\<close>, the clean-up of embedded markup.\<close>

definition strip_tags :: "string \<Rightarrow> string" where
  "strip_tags s = re_sub_empty tag s"

section \<open>The summary report: \<^verbatim>\<open>generate_summary_report.py\<close>\<close>

subsection \<open>Data\<close>

text \<open>
  The scripts keep their data in dictionaries. The four counts occur in the per-requirement
  dictionary, in the statistics of \<^verbatim>\<open>extract_stats\<close> and in \<^verbatim>\<open>overall_stats\<close>, so they
  are the common root of the records; counts are lengths of match lists and their sums, hence
  natural numbers. A local variable that has the name of a field carries a prime.
\<close>

record check_counts =
  total_checks :: nat
  passed :: nat
  failed :: nat
  warnings :: nat

record stats = check_counts +
  compliance_pct :: rat
  status :: string
  status_class :: string

record requirement = stats +
  req_num :: string
  title :: string
  findings :: "string list"

record requirement_data = requirement +
  critical_findings :: "string list"

text \<open>An entry of \<^verbatim>\<open>overall_stats["critical_findings"]\<close>.\<close>

record critical_finding =
  req :: string
  finding :: string

text \<open>
  \<^verbatim>\<open>overall_stats\<close>; its list of critical findings is named \<open>critical_list\<close> here, the
  name \<open>critical_findings\<close> being taken by the per-requirement field.
\<close>

record overall_stats = check_counts +
  critical_list :: "critical_finding list"

subsection \<open>Percentages\<close>

text \<open>
  \<^verbatim>\<open>passed / checks * 100\<close> is computed in binary floating point: the quotient of the two
  integers is rounded, and so is its product with 100. The rounding is the parameter \<open>rnd\<close>
  of the model, a function on the rationals; the values are compared with the integers 90
  and 70 exactly. What the proofs use of a rounding is that it is monotone and leaves 0, 1
  and 100 alone, which round-to-nearest does (the three numbers are representable).
\<close>

definition float_rounding :: "(rat \<Rightarrow> rat) \<Rightarrow> bool" where
  "float_rounding rnd \<longleftrightarrow>
     (\<forall>x y. x \<le> y \<longrightarrow> rnd x \<le> rnd y) \<and> rnd 0 = 0 \<and> rnd 1 = 1 \<and> rnd 100 = 100"

text \<open>
  \<^verbatim>\<open>(passed / checks * 100) if checks > 0 else 0\<close>, written out in
  \<^verbatim>\<open>extract_requirement_data\<close> and again, for the overall counts, in
  \<^verbatim>\<open>generate_summary_html\<close>.
\<close>

definition compliance_percentage :: "(rat \<Rightarrow> rat) \<Rightarrow> nat \<Rightarrow> nat \<Rightarrow> rat" where
  "compliance_percentage rnd passed' checks =
     (if checks > 0 then rnd (rnd (of_nat passed' / of_nat checks) * 100) else 0)"

text \<open>
  The \<^verbatim>\<open>if\<close>/\<^verbatim>\<open>elif\<close>/\<^verbatim>\<open>else\<close> under the comment "Determine status", the same text in
  \<^verbatim>\<open>extract_requirement_data\<close>, \<^verbatim>\<open>generate_summary_html\<close> and \<^verbatim>\<open>extract_stats\<close>: the
  label and the class for a percentage.
\<close>

definition determine_status :: "rat \<Rightarrow> string \<times> string" where
  "determine_status compliance_pct' =
     (if compliance_pct' \<ge> 90 then (''Compliant'', ''compliant'')
      else if compliance_pct' \<ge> 70 then (''Partially Compliant'', ''partial'')
      else (''Non-Compliant'', ''non-compliant''))"

subsection \<open>Counting checks\<close>

text \<open>\<^verbatim>\<open>len(re.findall(p, content, re.IGNORECASE))\<close> for a literal pattern \<open>p\<close>.\<close>

definition count_matches :: "string \<Rightarrow> string \<Rightarrow> nat" where
  "count_matches p content = length (re_findall (literal_ci p) content)"

definition count_checks :: "string \<Rightarrow> nat \<times> nat \<times> nat \<times> nat" where
  \<open>count_checks content =
     (let pass_count = count_matches ''[PASS]'' content;
          fail_count = count_matches ''[FAIL]'' content;
          warn_count = count_matches ''[WARN]'' content;
          pass_count_alt = count_matches ''<div class="check-item pass"'' content;
          fail_count_alt = count_matches ''<div class="check-item fail"'' content;
          warn_count_alt = count_matches ''<div class="check-item warning"'' content;
          pass_count = max pass_count pass_count_alt;
          fail_count = max fail_count fail_count_alt;
          warn_count = max warn_count warn_count_alt;
          total_checks' = pass_count + fail_count + warn_count
      in if total_checks' = 0 then (1, 1, fail_count, warn_count)
         else (total_checks', pass_count, fail_count, warn_count))\<close>

subsection \<open>The requirement number of a file name\<close>

text \<open>
  The loop of \<^verbatim>\<open>extract_requirement_number\<close> over its three patterns; \<open>None\<close> is
  Python's \<^verbatim>\<open>None\<close>.
\<close>

fun search_patterns :: "string list \<Rightarrow> string \<Rightarrow> string option" where
  "search_patterns [] filename = None"
| "search_patterns (pattern # patterns) filename =
     (case re_search (prefix_digits pattern) filename of
        Some g \<Rightarrow> Some g
      | None \<Rightarrow> search_patterns patterns filename)"

definition extract_requirement_number :: "string \<Rightarrow> string option" where
  "extract_requirement_number filename =
     search_patterns [''pci_req'', ''pci_r'', ''pci_requirement''] filename"

subsection \<open>One requirement report\<close>

text \<open>
  \<^verbatim>\<open>re.findall(r'<span class="red">\[FAIL\]</span>(.*?)</h3>', content, re.DOTALL)\<close>: the
  text between a \<^verbatim>\<open>[FAIL]\<close> span and the next closing \<^verbatim>\<open>h3\<close>. The same call is in
  \<^verbatim>\<open>card_report_with_clickable.py\<close> and \<^verbatim>\<open>fix_card_report.py\<close>.
\<close>

definition fail_matches_of :: "string \<Rightarrow> string list" where
  \<open>fail_matches_of content =
     re_findall (between ''<span class="red">[FAIL]</span>'' (lit ''</h3>'')) content\<close>

text \<open>
  \<^verbatim>\<open>extract_requirement_data(file_path, req_num)\<close> opens and reads the file inside
  \<^verbatim>\<open>try\<close>; the model takes the outcome of that read in place of the path: \<open>Inr content\<close>,
  or \<open>Inl e\<close> when the body of the \<^verbatim>\<open>try\<close> raised an exception whose text is \<open>e\<close>. On the
  strings of the model that is opening or decoding the file: nothing after the read can
  raise, the regular expressions are total and the division is guarded.
\<close>

definition extract_requirement_data ::
    "(rat \<Rightarrow> rat) \<Rightarrow> string + string \<Rightarrow> string \<Rightarrow> requirement_data" where
  \<open>extract_requirement_data rnd file req_num' =
     (case file of
        Inr content \<Rightarrow>
          (let title' =
                 (case re_search (open_tag_between ''<h1'' (lit ''</h1>'')) content of
                    Some g \<Rightarrow> strip g
                  | None \<Rightarrow> ''Requirement '' @ req_num');
               title' = strip_tags title';
               fail_matches = fail_matches_of content;
               findings' = map (\<lambda>match. strip_tags (strip match)) fail_matches;
               (checks, passed', failed', warnings') = count_checks content;
               compliance_pct' = compliance_percentage rnd passed' checks;
               (status', status_class') = determine_status compliance_pct'
           in \<lparr>total_checks = checks, passed = passed', failed = failed',
               warnings = warnings', compliance_pct = compliance_pct', status = status',
               status_class = status_class', req_num = req_num', title = title',
               findings = findings',
               critical_findings = (if length findings' > 0 then take 3 findings' else [])\<rparr>)
      | Inl e \<Rightarrow>
          \<lparr>total_checks = 1, passed = 0, failed = 1, warnings = 0,
           compliance_pct = 0, status = ''Unknown'', status_class = ''non-compliant'',
           req_num = req_num', title = ''Requirement '' @ req_num',
           findings = [''Error processing report''],
           critical_findings = [''Error processing report'']\<rparr>)\<close>

subsection \<open>The batch\<close>

text \<open>
  The \<^verbatim>\<open>for\<close> loop of \<^verbatim>\<open>main\<close> over the report files, each given by its base name and
  the outcome of reading it. The state of the loop is the list \<^verbatim>\<open>requirements_data\<close> and
  the dictionary \<^verbatim>\<open>overall_stats\<close>. A file is processed when \<^verbatim>\<open>req_num\<close> is truthy: not
  \<^verbatim>\<open>None\<close> and not the empty string.
\<close>

fun process_reports ::
    "(rat \<Rightarrow> rat) \<Rightarrow> (string \<times> (string + string)) list \<Rightarrow>
     requirement_data list \<times> overall_stats \<Rightarrow> requirement_data list \<times> overall_stats" where
  "process_reports rnd [] (requirements_data, overall) = (requirements_data, overall)"
| "process_reports rnd ((filename, file) # report_files) (requirements_data, overall) =
     (case extract_requirement_number filename of
        None \<Rightarrow> process_reports rnd report_files (requirements_data, overall)
      | Some req_num' \<Rightarrow>
          (if req_num' = [] then process_reports rnd report_files (requirements_data, overall)
           else
             (let req_data = extract_requirement_data rnd file req_num'
              in process_reports rnd report_files
                   (requirements_data @ [req_data],
                    overall\<lparr>total_checks := total_checks overall + total_checks req_data,
                            passed := passed overall + passed req_data,
                            failed := failed overall + failed req_data,
                            warnings := warnings overall + warnings req_data,
                            critical_list := critical_list overall @
                              map (\<lambda>f. \<lparr>req = req_num', finding = f\<rparr>)
                                (critical_findings req_data)\<rparr>))))"

definition initial_stats :: overall_stats where
  "initial_stats =
     \<lparr>total_checks = 0, passed = 0, failed = 0, warnings = 0, critical_list = []\<rparr>"

subsection \<open>What the summary presents\<close>

text \<open>
  \<^verbatim>\<open>int(x["req_num"])\<close>, the sort key, on a string of ASCII digits, which is what
  \<^verbatim>\<open>extract_requirement_number\<close> returns.
\<close>

definition int_of_digits :: "string \<Rightarrow> nat" where
  "int_of_digits s = foldl (\<lambda>n c. 10 * n + (of_char c - 48)) 0 s"

text \<open>
  \<^verbatim>\<open>generate_summary_html\<close> computes the overall percentage and status, puts the
  requirements and the critical findings in order and cuts the latter to ten, and renders
  all of it as HTML. The rendering is left out; the record holds what is rendered: the rows
  of the table in their order, the critical findings shown, and the number announced as
  "...plus N more critical findings". \<^verbatim>\<open>sorted\<close> is stable, as \<^const>\<open>sort_key\<close> is.
\<close>

record summary =
  overall_compliance :: rat
  overall_status :: string
  overall_status_class :: string
  req_rows :: "requirement_data list"
  top_findings :: "critical_finding list"
  more_findings :: nat

definition generate_summary_html ::
    "(rat \<Rightarrow> rat) \<Rightarrow> requirement_data list \<Rightarrow> overall_stats \<Rightarrow> summary" where
  "generate_summary_html rnd requirements_data overall =
     (let overall_compliance' =
            compliance_percentage rnd (passed overall) (total_checks overall);
          (overall_status', overall_status_class') = determine_status overall_compliance';
          sorted_findings = sort_key (\<lambda>x. int_of_digits (req x)) (critical_list overall);
          top_findings' = (if length sorted_findings > 10 then take 10 sorted_findings
                           else sorted_findings)
      in \<lparr>overall_compliance = overall_compliance',
          overall_status = overall_status',
          overall_status_class = overall_status_class',
          req_rows = sort_key (\<lambda>x. int_of_digits (req_num x)) requirements_data,
          top_findings = (if critical_list overall = [] then [] else top_findings'),
          more_findings = (if critical_list overall \<noteq> [] \<and> length sorted_findings > 10
                           then length sorted_findings - 10 else 0)\<rparr>)"

text \<open>
  \<^verbatim>\<open>main\<close>: with no report file at all the script exits with status 1 (\<open>Inl 1\<close>); otherwise
  it runs the loop from empty statistics and generates the summary.
\<close>

definition main ::
    "(rat \<Rightarrow> rat) \<Rightarrow> (string \<times> (string + string)) list \<Rightarrow>
     nat + (requirement_data list \<times> overall_stats \<times> summary)" where
  "main rnd report_files =
     (if report_files = [] then Inl 1
      else
        (let (requirements_data, overall) = process_reports rnd report_files ([], initial_stats)
         in Inr (requirements_data, overall,
                 generate_summary_html rnd requirements_data overall)))"

section \<open>The reports with detailed findings\<close>

subsection \<open>\<^verbatim>\<open>generate_interactive_summary.py\<close> and \<^verbatim>\<open>create_card_based_report.py\<close>\<close>

text \<open>
  The two scripts have the same \<^verbatim>\<open>extract_requirement_data\<close> and \<^verbatim>\<open>count_checks\<close>, word
  for word; \<^verbatim>\<open>count_checks\<close> is also the one of \<^verbatim>\<open>generate_summary_report.py\<close>. A finding
  is a dictionary of three strings here (its \<^verbatim>\<open>title\<close> is the field \<open>finding_title\<close>, the
  name \<open>title\<close> being the requirement's).
\<close>

record detailed_finding =
  finding_title :: string
  details :: string
  recommendation :: string

record requirement_detail = requirement +
  detailed_findings :: "detailed_finding list"

text \<open>
  The body of the loop over \<^verbatim>\<open>fail_blocks\<close>: title from the first \<^verbatim>\<open>h3\<close>, details from
  the first plain \<^verbatim>\<open>div\<close>, recommendation from the inline marker or else from the
  recommendation container, each with its default.
\<close>

definition finding_of_block :: "string \<Rightarrow> detailed_finding" where
  \<open>finding_of_block block =
     (let finding_title' =
            (case re_search (open_tag_between ''<h3'' (lit ''</h3>'')) block of
               None \<Rightarrow> ''Failed Check''
             | Some g \<Rightarrow> strip (strip_tags g));
          finding_details =
            (case re_search (between ''<div>'' (lit ''</div>'')) block of
               None \<Rightarrow> ''No details available''
             | Some g \<Rightarrow> strip g);
          recommendation' =
            (case re_search (between ''<strong>Recommendation:</strong>''
                               (alt [''<br>'', ''</div>''])) block of
               Some g \<Rightarrow> strip g
             | None \<Rightarrow>
                 (case re_search (between ''<div class="recommendation">'' (lit ''</div>''))
                         block of
                    Some g \<Rightarrow> strip g
                  | None \<Rightarrow> ''No specific recommendation provided.''))
      in \<lparr>finding_title = finding_title', details = finding_details,
          recommendation = recommendation'\<rparr>)\<close>

text \<open>
  \<^verbatim>\<open>re.findall(r'<div class="check-item fail">(.*?)</div>\s*</div>', content, re.DOTALL)\<close>,
  the blocks of the first approach.
\<close>

definition fail_blocks_of :: "string \<Rightarrow> string list" where
  \<open>fail_blocks_of content =
     re_findall (between ''<div class="check-item fail">'' close_div_pair) content\<close>

text \<open>
  The alternative of these two scripts: every red span whose text contains \<^verbatim>\<open>[FAIL]\<close>
  gives a finding. Its title is the text that follows the first occurrence of that very
  span (the pattern is built with \<^verbatim>\<open>re.escape\<close>, so the span is matched literally) up to
  a line break, a closing \<^verbatim>\<open>div\<close> or a closing \<^verbatim>\<open>h3\<close>.
\<close>

definition context_of :: "string \<Rightarrow> string \<Rightarrow> string" where
  \<open>context_of content indicator =
     (case re_search (between (''<span class="red">'' @ indicator @ ''</span>'')
                        (alt [''<br>'', ''</div>'', ''</h3>''])) content of
        Some g \<Rightarrow> strip g
      | None \<Rightarrow> ''Failed check'')\<close>

definition fail_indicators_of :: "string \<Rightarrow> string list" where
  \<open>fail_indicators_of content =
     filter (\<lambda>indicator. contains indicator ''[FAIL]'')
       (re_findall (between ''<span class="red">'' (lit ''</span>'')) content)\<close>

definition extract_requirement_data_detailed ::
    "(rat \<Rightarrow> rat) \<Rightarrow> string + string \<Rightarrow> string \<Rightarrow> requirement_detail" where
  \<open>extract_requirement_data_detailed rnd file req_num' =
     (case file of
        Inr content \<Rightarrow>
          (let title' =
                 (case re_search (open_tag_between ''<h1'' (lit ''</h1>'')) content of
                    Some g \<Rightarrow> strip g
                  | None \<Rightarrow> ''Requirement '' @ req_num');
               title' = strip_tags title';
               detailed_findings' = map finding_of_block (fail_blocks_of content);
               detailed_findings' =
                 (if detailed_findings' = [] then
                    map (\<lambda>indicator.
                           \<lparr>finding_title = ''Failed: '' @ context_of content indicator,
                            details = ''Specific details not available'',
                            recommendation =
                              ''Review the full requirement report for more information.''\<rparr>)
                      (fail_indicators_of content)
                  else detailed_findings');
               (checks, passed', failed', warnings') = count_checks content;
               compliance_pct' = compliance_percentage rnd passed' checks;
               (status', status_class') = determine_status compliance_pct'
           in \<lparr>total_checks = checks, passed = passed', failed = failed',
               warnings = warnings', compliance_pct = compliance_pct', status = status',
               status_class = status_class', req_num = req_num', title = title',
               findings = map finding_title detailed_findings',
               detailed_findings = detailed_findings'\<rparr>)
      | Inl e \<Rightarrow>
          \<lparr>total_checks = 1, passed = 0, failed = 1, warnings = 0,
           compliance_pct = 0, status = ''Unknown'', status_class = ''non-compliant'',
           req_num = req_num', title = ''Requirement '' @ req_num',
           findings = [''Error processing report''],
           detailed_findings =
             [\<lparr>finding_title = ''Error processing report'',
               details = ''An error occurred while processing this report: '' @ e,
               recommendation = ''Check the original report file for details.''\<rparr>]\<rparr>)\<close>

text \<open>
  The loop of \<^verbatim>\<open>main\<close> in \<^verbatim>\<open>generate_interactive_summary.py\<close>: that of the summary
  report, but for the critical findings, which are the first five detailed findings of
  each requirement, copied with the requirement number. (In \<^verbatim>\<open>create_card_based_report.py\<close>
  they are the first three.)
\<close>

record critical_detail =
  critical_req :: string
  critical_title :: string
  critical_details :: string
  critical_recommendation :: string

record overall_stats_detailed = check_counts +
  critical_details_list :: "critical_detail list"

fun process_reports_detailed ::
    "(rat \<Rightarrow> rat) \<Rightarrow> (string \<times> (string + string)) list \<Rightarrow>
     requirement_detail list \<times> overall_stats_detailed \<Rightarrow>
     requirement_detail list \<times> overall_stats_detailed" where
  "process_reports_detailed rnd [] (requirements_data, overall) = (requirements_data, overall)"
| "process_reports_detailed rnd ((filename, file) # report_files) (requirements_data, overall) =
     (case extract_requirement_number filename of
        None \<Rightarrow> process_reports_detailed rnd report_files (requirements_data, overall)
      | Some req_num' \<Rightarrow>
          (if req_num' = [] then
             process_reports_detailed rnd report_files (requirements_data, overall)
           else
             (let req_data = extract_requirement_data_detailed rnd file req_num'
              in process_reports_detailed rnd report_files
                   (requirements_data @ [req_data],
                    overall\<lparr>total_checks := total_checks overall + total_checks req_data,
                            passed := passed overall + passed req_data,
                            failed := failed overall + failed req_data,
                            warnings := warnings overall + warnings req_data,
                            critical_details_list := critical_details_list overall @
                              map (\<lambda>finding.
                                     \<lparr>critical_req = req_num',
                                      critical_title = finding_title finding,
                                      critical_details = details finding,
                                      critical_recommendation = recommendation finding\<rparr>)
                                (take 5 (detailed_findings req_data))\<rparr>))))"

definition initial_stats_detailed :: overall_stats_detailed where
  "initial_stats_detailed =
     \<lparr>total_checks = 0, passed = 0, failed = 0, warnings = 0, critical_details_list = []\<rparr>"

subsection \<open>\<^verbatim>\<open>card_report_with_clickable.py\<close>\<close>

text \<open>
  \<^verbatim>\<open>extract_detailed_findings\<close>: the blocks first; if they give nothing, the
  \<^verbatim>\<open>[FAIL]\<close> spans that a closing \<^verbatim>\<open>h3\<close> follows, with the markup stripped from the text
  in between.
\<close>

definition extract_detailed_findings :: "string \<Rightarrow> detailed_finding list" where
  \<open>extract_detailed_findings content =
     (let detailed_findings' = map finding_of_block (fail_blocks_of content)
      in if detailed_findings' = [] then
           map (\<lambda>match.
                  \<lparr>finding_title = strip_tags (strip match),
                   details = ''Specific details not available in the report.'',
                   recommendation =
                     ''Review the full requirement report for detailed recommendations.''\<rparr>)
             (fail_matches_of content)
         else detailed_findings')\<close>

text \<open>
  \<^verbatim>\<open>extract_stats\<close>: the counting of \<^verbatim>\<open>count_checks\<close> written out once more, with the
  percentage and the status; without any marker it returns the defaults with one passed
  check, the integer 100 and "Compliant".
\<close>

definition extract_stats :: "(rat \<Rightarrow> rat) \<Rightarrow> string \<Rightarrow> stats" where
  \<open>extract_stats rnd content =
     (let stats' = \<lparr>total_checks = 0, passed = 0, failed = 0, warnings = 0,
                    compliance_pct = 0, status = ''Unknown'',
                    status_class = ''non-compliant''\<rparr>;
          pass_count = count_matches ''[PASS]'' content;
          fail_count = count_matches ''[FAIL]'' content;
          warn_count = count_matches ''[WARN]'' content;
          pass_count_alt = count_matches ''<div class="check-item pass"'' content;
          fail_count_alt = count_matches ''<div class="check-item fail"'' content;
          warn_count_alt = count_matches ''<div class="check-item warning"'' content;
          pass_count = max pass_count pass_count_alt;
          fail_count = max fail_count fail_count_alt;
          warn_count = max warn_count warn_count_alt;
          total_checks' = pass_count + fail_count + warn_count
      in if total_checks' = 0 then
           stats'\<lparr>total_checks := 1, passed := 1, compliance_pct := 100,
                   status := ''Compliant'', status_class := ''compliant''\<rparr>
         else
           (let compliance_pct' = rnd (rnd (of_nat pass_count / of_nat total_checks') * 100);
                (status', status_class') = determine_status compliance_pct'
            in stats'\<lparr>total_checks := total_checks', passed := pass_count,
                       failed := fail_count, warnings := warn_count,
                       compliance_pct := compliance_pct',
                       status := status', status_class := status_class'\<rparr>))\<close>

text \<open>
  \<^verbatim>\<open>extract_title\<close>, the same in \<^verbatim>\<open>card_report_with_clickable.py\<close>, \<^verbatim>\<open>fix_card_report.py\<close>
  and \<^verbatim>\<open>create_explicit_layout_report.py\<close>.
\<close>

definition extract_title :: "string \<Rightarrow> string \<Rightarrow> string" where
  "extract_title content req_num' =
     (case re_search (open_tag_between ''<h1'' (lit ''</h1>'')) content of
        Some g \<Rightarrow> strip_tags (strip g)
      | None \<Rightarrow> ''Requirement '' @ req_num')"

text \<open>
  The loop of \<^verbatim>\<open>main\<close> in \<^verbatim>\<open>card_report_with_clickable.py\<close>. It opens and reads the file
  outside of any \<^verbatim>\<open>try\<close>, so an exception of the read leaves the loop and \<^verbatim>\<open>main\<close>: the
  result is \<open>Inl e\<close> with the text of the exception, and \<open>Inr\<close> of the list
  \<^verbatim>\<open>req_data_list\<close> when every file was read.
\<close>

record card_requirement =
  card_req_num :: string
  card_title :: string
  card_findings :: "detailed_finding list"
  card_stats :: stats

fun read_reports_clickable ::
    "(rat \<Rightarrow> rat) \<Rightarrow> (string \<times> (string + string)) list \<Rightarrow> card_requirement list \<Rightarrow>
     string + card_requirement list" where
  "read_reports_clickable rnd [] req_data_list = Inr req_data_list"
| "read_reports_clickable rnd ((filename, file) # report_files) req_data_list =
     (case extract_requirement_number filename of
        None \<Rightarrow> read_reports_clickable rnd report_files req_data_list
      | Some req_num' \<Rightarrow>
          (if req_num' = [] then read_reports_clickable rnd report_files req_data_list
           else
             (case file of
                Inl e \<Rightarrow> Inl e
              | Inr content \<Rightarrow>
                  read_reports_clickable rnd report_files
                    (req_data_list @
                       [\<lparr>card_req_num = req_num',
                         card_title = extract_title content req_num',
                         card_findings = extract_detailed_findings content,
                         card_stats = extract_stats rnd content\<rparr>]))))"

subsection \<open>\<^verbatim>\<open>fix_card_report.py\<close>\<close>

text \<open>
  \<^verbatim>\<open>extract_findings\<close> of this script keeps a title and a fixed text per finding, and it
  takes the two approaches in the other order: the \<^verbatim>\<open>[FAIL]\<close> spans first, and the
  blocks, of which only those with an \<^verbatim>\<open>h3\<close> count, if the spans give nothing.
\<close>

record brief_finding =
  brief_title :: string
  brief_details :: string

definition extract_findings :: "string \<Rightarrow> brief_finding list" where
  \<open>extract_findings content =
     (let findings' =
            map (\<lambda>match. \<lparr>brief_title = strip_tags (strip match),
                          brief_details = ''Click to see details in full report''\<rparr>)
              (fail_matches_of content)
      in if findings' = [] then
           concat (map (\<lambda>block.
                          (case re_search (open_tag_between ''<h3'' (lit ''</h3>'')) block of
                             Some g \<Rightarrow>
                               [\<lparr>brief_title = strip (strip_tags g),
                                 brief_details = ''Click to see details in full report''\<rparr>]
                           | None \<Rightarrow> []))
                     (fail_blocks_of content))
         else findings')\<close>

text \<open>
  The loop of \<^verbatim>\<open>main\<close> in \<^verbatim>\<open>fix_card_report.py\<close>; \<^verbatim>\<open>create_explicit_layout_report.py\<close> has
  the same loop and the same \<^verbatim>\<open>extract_findings\<close>. The read is outside of any \<^verbatim>\<open>try\<close> here
  as well.
\<close>

record brief_requirement =
  brief_req_num :: string
  brief_req_title :: string
  brief_findings :: "brief_finding list"

fun read_reports_fixed ::
    "(string \<times> (string + string)) list \<Rightarrow> brief_requirement list \<Rightarrow>
     string + brief_requirement list" where
  "read_reports_fixed [] req_data_list = Inr req_data_list"
| "read_reports_fixed ((filename, file) # report_files) req_data_list =
     (case extract_requirement_number filename of
        None \<Rightarrow> read_reports_fixed report_files req_data_list
      | Some req_num' \<Rightarrow>
          (if req_num' = [] then read_reports_fixed report_files req_data_list
           else
             (case file of
                Inl e \<Rightarrow> Inl e
              | Inr content \<Rightarrow>
                  read_reports_fixed report_files
                    (req_data_list @
                       [\<lparr>brief_req_num = req_num',
                         brief_req_title = extract_title content req_num',
                         brief_findings = extract_findings content\<rparr>]))))"

section \<open>What the specification says about a batch\<close>

text \<open>
  The specification has every document whose identifier resolves yield exactly one record, a
  document whose identifier does not resolve being skipped. \<open>records_of\<close> says this of a
  batch, in the words of the specification; the loop of \<^verbatim>\<open>main\<close> is compared with it
  below. \<open>entries_of\<close> is the projection of a record's critical findings into entries
  tagged with its identifier.
\<close>

definition records_of ::
    "(rat \<Rightarrow> rat) \<Rightarrow> (string \<times> (string + string)) list \<Rightarrow> requirement_data list" where
  "records_of rnd report_files =
     concat (map (\<lambda>(filename, doc).
                    (case extract_requirement_number filename of
                       None \<Rightarrow> []
                     | Some r \<Rightarrow> [extract_requirement_data rnd doc r]))
               report_files)"

definition entries_of :: "requirement_data \<Rightarrow> critical_finding list" where
  "entries_of d = map (\<lambda>f. \<lparr>req = req_num d, finding = f\<rparr>) (critical_findings d)"

section \<open>Example documents\<close>

text \<open>
  A document with three \<^verbatim>\<open>[FAIL]\<close> tags and five failed-check containers.
\<close>

definition three_and_five :: string where
  \<open>three_and_five =
     ''[FAIL] a [FAIL] b [FAIL] c '' @
     ''<div class="check-item fail"><div class="check-item fail"><div class="check-item fail">'' @
     ''<div class="check-item fail"><div class="check-item fail">''\<close>

text \<open>
  A report with eight \<^verbatim>\<open>[FAIL]\<close> headings.
\<close>

definition eight_findings :: string where
  \<open>eight_findings =
     ''<h3><span class="red">[FAIL]</span> a</h3><h3><span class="red">[FAIL]</span> b</h3>'' @
     ''<h3><span class="red">[FAIL]</span> c</h3><h3><span class="red">[FAIL]</span> d</h3>'' @
     ''<h3><span class="red">[FAIL]</span> e</h3><h3><span class="red">[FAIL]</span> f</h3>'' @
     ''<h3><span class="red">[FAIL]</span> g</h3><h3><span class="red">[FAIL]</span> h</h3>''\<close>

text \<open>
  A report with one failed-check block (heading, details and recommendation) and one
  \<^verbatim>\<open>[FAIL]\<close> heading outside of it, and a report with the \<^verbatim>\<open>[FAIL]\<close> heading only.
\<close>

definition block_and_marker :: string where
  \<open>block_and_marker =
     ''<div class="check-item fail"><h3>Open port</h3><div>22 is open</div>'' @
     ''<strong>Recommendation:</strong> close it<br></div></div>'' @
     ''<h3><span class="red">[FAIL]</span> Weak cipher</h3>''\<close>

definition marker_only :: string where
  \<open>marker_only = ''<h3><span class="red">[FAIL]</span> Weak cipher</h3>''\<close>

text \<open>
  A report without a block, with two \<^verbatim>\<open>[FAIL]\<close> spans of which only the first is followed
  by a closing heading; and a report with a failed-check block and no \<^verbatim>\<open>[FAIL]\<close> span.
\<close>

definition two_markers_one_heading :: string where
  \<open>two_markers_one_heading =
     ''<h3><span class="red">[FAIL]</span> Weak cipher</h3>'' @
     ''<span class="red">[FAIL]</span> Old protocol<br>''\<close>

definition block_only :: string where
  \<open>block_only =
     ''<div class="check-item fail"><h3>Open port</h3><div>22 is open</div>'' @
     ''<strong>Recommendation:</strong> close it<br></div></div>''\<close>

text \<open>
  Two batches: one of four files, of which \<^verbatim>\<open>notes.html\<close> does not resolve and the last
  cannot be decoded; and one of three files of which the second cannot be decoded.
\<close>

definition mixed_batch :: "(string \<times> (string + string)) list" where
  "mixed_batch =
     [(''pci_req2.html'', Inr marker_only),
      (''pci_req4.html'', Inr eight_findings),
      (''notes.html'', Inr ''[FAIL]''),
      (''pci_req10.html'', Inl ''invalid start byte'')]"

definition readable_then_unreadable :: "(string \<times> (string + string)) list" where
  "readable_then_unreadable =
     [(''pci_req1.html'', Inr ''[PASS]''),
      (''pci_req2.html'', Inl ''invalid start byte''),
      (''pci_req3.html'', Inr ''[FAIL]'')]"

section \<open>The string functions do what they are named for\<close>

text \<open>
  \<open>startswith\<close> is the prefix test; the lazy group before a literal ends at an occurrence
  of that literal and consumes the group and the literal; a scan finds no more matches than
  the subject has characters.
\<close>

lemma startswith_iff: "startswith s p \<longleftrightarrow> (\<exists>r. s = p @ r)"
  by (induction s p rule: startswith.induct) auto

lemma lit_Some: "lit p s = Some n \<longleftrightarrow> startswith s p \<and> n = length p"
  by (auto simp: lit_def)

lemma lazy_until_lit:
  "lazy_until (lit p) s = Some (g, n) \<Longrightarrow> \<exists>r. s = g @ p @ r \<and> n = length g + length p"
proof (induction s arbitrary: g n)
  case Nil
  then show ?case by (auto simp: lit_Some startswith_iff split: option.splits)
next
  case (Cons c cs)
  show ?case
  proof (cases "lit p (c # cs)")
    case (Some k)
    with Cons.prems show ?thesis by (auto simp: lit_Some startswith_iff)
  next
    case None
    with Cons.prems obtain g' n' where l: "lazy_until (lit p) cs = Some (g', n')"
      and g: "g = c # g'" and n: "n = Suc n'"
      by (auto split: option.splits)
    from Cons.IH [OF l] show ?thesis by (auto simp: g n)
  qed
qed

lemma findall_from_length: "length (findall_from m k s) \<le> length s"
  by (induction m k s rule: findall_from.induct) (auto split: option.splits)

lemma count_matches_le: "count_matches p content \<le> length content"
  by (simp add: count_matches_def re_findall_def findall_from_length)

section \<open>Counts and percentages\<close>

lemma count_checks_sum:
  "count_checks content = (t, p, f, w) \<Longrightarrow> t = p + f + w \<and> 1 \<le> t"
  by (auto simp: count_checks_def Let_def split: if_splits)

lemma float_rounding_id: "float_rounding id"
  by (simp add: float_rounding_def)

lemma rounding_unit:
  assumes "float_rounding rnd" "0 \<le> x" "x \<le> 1"
  shows "0 \<le> rnd x \<and> rnd x \<le> 1"
  using assms unfolding float_rounding_def by metis

lemma rounding_percent:
  assumes "float_rounding rnd" "0 \<le> x" "x \<le> 100"
  shows "0 \<le> rnd x \<and> rnd x \<le> 100"
  using assms unfolding float_rounding_def by metis

lemma compliance_percentage_bounds:
  assumes r: "float_rounding rnd" and le: "p \<le> c"
  shows "0 \<le> compliance_percentage rnd p c \<and> compliance_percentage rnd p c \<le> 100"
proof (cases "c > 0")
  case False
  then show ?thesis by (simp add: compliance_percentage_def)
next
  case True
  have q0: "0 \<le> (of_nat p / of_nat c :: rat)" by simp
  have q1: "(of_nat p / of_nat c :: rat) \<le> 1" using True le by simp
  from rounding_unit [OF r q0 q1]
  have "0 \<le> rnd (of_nat p / of_nat c) * 100" "rnd (of_nat p / of_nat c) * 100 \<le> 100"
    by simp_all
  from rounding_percent [OF r this] show ?thesis using True
    by (simp add: compliance_percentage_def)
qed

lemma compliance_percentage_all_passed:
  assumes "float_rounding rnd" "0 < c"
  shows "compliance_percentage rnd c c = 100"
  using assms by (simp add: compliance_percentage_def float_rounding_def)

lemma determine_status_cases:
  "determine_status p = (''Compliant'', ''compliant'') \<or>
   determine_status p = (''Partially Compliant'', ''partial'') \<or>
   determine_status p = (''Non-Compliant'', ''non-compliant'')"
  by (simp add: determine_status_def)

subsection \<open>The fields of a record, from the counts of its content\<close>

lemma summary_counts:
  assumes "count_checks content = (t, p, f, w)"
  shows "total_checks (extract_requirement_data rnd (Inr content) r) = t"
    and "passed (extract_requirement_data rnd (Inr content) r) = p"
    and "failed (extract_requirement_data rnd (Inr content) r) = f"
    and "warnings (extract_requirement_data rnd (Inr content) r) = w"
    and "compliance_pct (extract_requirement_data rnd (Inr content) r) =
           compliance_percentage rnd p t"
    and "status (extract_requirement_data rnd (Inr content) r) =
           fst (determine_status (compliance_percentage rnd p t))"
    and "status_class (extract_requirement_data rnd (Inr content) r) =
           snd (determine_status (compliance_percentage rnd p t))"
  using assms by (simp_all add: extract_requirement_data_def Let_def split: prod.splits)

lemma detailed_counts:
  assumes "count_checks content = (t, p, f, w)"
  shows "total_checks (extract_requirement_data_detailed rnd (Inr content) r) = t"
    and "passed (extract_requirement_data_detailed rnd (Inr content) r) = p"
    and "failed (extract_requirement_data_detailed rnd (Inr content) r) = f"
    and "warnings (extract_requirement_data_detailed rnd (Inr content) r) = w"
    and "compliance_pct (extract_requirement_data_detailed rnd (Inr content) r) =
           compliance_percentage rnd p t"
    and "status (extract_requirement_data_detailed rnd (Inr content) r) =
           fst (determine_status (compliance_percentage rnd p t))"
    and "status_class (extract_requirement_data_detailed rnd (Inr content) r) =
           snd (determine_status (compliance_percentage rnd p t))"
  using assms
  by (simp_all add: extract_requirement_data_detailed_def Let_def split: prod.splits)

lemma summary_error:
  "total_checks (extract_requirement_data rnd (Inl e) r) = 1"
  "passed (extract_requirement_data rnd (Inl e) r) = 0"
  "failed (extract_requirement_data rnd (Inl e) r) = 1"
  "warnings (extract_requirement_data rnd (Inl e) r) = 0"
  "compliance_pct (extract_requirement_data rnd (Inl e) r) = 0"
  "status (extract_requirement_data rnd (Inl e) r) = ''Unknown''"
  "status_class (extract_requirement_data rnd (Inl e) r) = ''non-compliant''"
  "findings (extract_requirement_data rnd (Inl e) r) = [''Error processing report'']"
  "critical_findings (extract_requirement_data rnd (Inl e) r) = [''Error processing report'']"
  by (simp_all add: extract_requirement_data_def)

lemma stats_counts:
  assumes "count_checks content = (t, p, f, w)"
  shows "total_checks (extract_stats rnd content) = t"
    and "passed (extract_stats rnd content) = p"
    and "failed (extract_stats rnd content) = f"
    and "warnings (extract_stats rnd content) = w"
  using assms
  by (auto simp: extract_stats_def count_checks_def Let_def split: if_splits prod.splits)

lemma summary_record_sum:
  "total_checks (extract_requirement_data rnd doc r) =
     passed (extract_requirement_data rnd doc r) + failed (extract_requirement_data rnd doc r)
       + warnings (extract_requirement_data rnd doc r)"
proof (cases doc)
  case (Inl e)
  then show ?thesis by (simp add: summary_error)
next
  case (Inr content)
  obtain t p f w where c: "count_checks content = (t, p, f, w)"
    by (cases "count_checks content") auto
  from count_checks_sum [OF c] show ?thesis
    by (simp add: Inr summary_counts [OF c])
qed

lemma summary_record_positive: "1 \<le> total_checks (extract_requirement_data rnd doc r)"
proof (cases doc)
  case (Inl e)
  then show ?thesis by (simp add: summary_error)
next
  case (Inr content)
  obtain t p f w where c: "count_checks content = (t, p, f, w)"
    by (cases "count_checks content") auto
  from count_checks_sum [OF c] show ?thesis
    by (simp add: Inr summary_counts [OF c])
qed

subsection \<open>The loop of \<^verbatim>\<open>main\<close> in closed form\<close>

lemma re_search_Some: "re_search m s = Some g \<Longrightarrow> \<exists>s' n. m s' = Some (g, n)"
  by (induction s) (auto split: option.splits)

lemma prefix_digits_nonempty: "prefix_digits p s = Some (g, n) \<Longrightarrow> g \<noteq> []"
  by (auto simp: prefix_digits_def Let_def split: if_splits)

lemma prefix_digits_digits: "prefix_digits p s = Some (g, n) \<Longrightarrow> \<forall>c \<in> set g. is_digit c"
  by (auto simp: prefix_digits_def Let_def split: if_splits dest: set_takeWhileD)

lemma search_patterns_digits:
  "search_patterns ps filename = Some g \<Longrightarrow> \<forall>c \<in> set g. is_digit c"
  by (induction ps) (auto split: option.splits dest!: re_search_Some prefix_digits_digits)

text \<open>
  An identifier is a non-empty string of ASCII digits, so \<^verbatim>\<open>int\<close> of it does not raise and is
  its decimal value.
\<close>

lemma extract_requirement_number_digits:
  "extract_requirement_number filename = Some g \<Longrightarrow> \<forall>c \<in> set g. is_digit c"
  unfolding extract_requirement_number_def by (rule search_patterns_digits)

lemma search_patterns_nonempty: "search_patterns ps filename = Some g \<Longrightarrow> g \<noteq> []"
  by (induction ps) (auto split: option.splits dest!: re_search_Some prefix_digits_nonempty)

lemma extract_requirement_number_nonempty:
  "extract_requirement_number filename = Some g \<Longrightarrow> g \<noteq> []"
  unfolding extract_requirement_number_def by (rule search_patterns_nonempty)

lemma summary_req_num: "req_num (extract_requirement_data rnd doc r) = r"
  by (cases doc) (simp_all add: extract_requirement_data_def Let_def split: prod.splits)

text \<open>
  The identifier of a resolved file is never empty, so the truthiness test of the loop never
  drops a resolved file, and the loop appends exactly the records of \<open>records_of\<close> and adds
  up their counts and entries.
\<close>

lemma process_reports_closed:
  "process_reports rnd report_files (acc, ov) =
     (acc @ records_of rnd report_files,
      ov\<lparr>total_checks := total_checks ov + sum_list (map total_checks (records_of rnd report_files)),
         passed := passed ov + sum_list (map passed (records_of rnd report_files)),
         failed := failed ov + sum_list (map failed (records_of rnd report_files)),
         warnings := warnings ov + sum_list (map warnings (records_of rnd report_files)),
         critical_list :=
           critical_list ov @ concat (map entries_of (records_of rnd report_files))\<rparr>)"
proof (induction report_files arbitrary: acc ov)
  case Nil
  show ?case by (simp add: records_of_def)
next
  case (Cons x report_files)
  obtain filename doc where x: "x = (filename, doc)" by (cases x)
  show ?case
  proof (cases "extract_requirement_number filename")
    case None
    then show ?thesis using Cons.IH [of acc ov] by (simp add: x records_of_def)
  next
    case (Some r)
    then have "r \<noteq> []" by (rule extract_requirement_number_nonempty)
    then show ?thesis using Some
      by (simp add: x Cons.IH records_of_def entries_of_def summary_req_num Let_def)
  qed
qed

lemma batch_counts:
  "total_checks (snd (process_reports rnd report_files ([], initial_stats))) =
     sum_list (map total_checks (records_of rnd report_files))"
  "passed (snd (process_reports rnd report_files ([], initial_stats))) =
     sum_list (map passed (records_of rnd report_files))"
  "failed (snd (process_reports rnd report_files ([], initial_stats))) =
     sum_list (map failed (records_of rnd report_files))"
  "warnings (snd (process_reports rnd report_files ([], initial_stats))) =
     sum_list (map warnings (records_of rnd report_files))"
  "critical_list (snd (process_reports rnd report_files ([], initial_stats))) =
     concat (map entries_of (records_of rnd report_files))"
  "fst (process_reports rnd report_files ([], initial_stats)) = records_of rnd report_files"
  by (simp_all add: process_reports_closed initial_stats_def)

lemma length_le_sum_list:
  "\<forall>d \<in> set xs. 1 \<le> f d \<Longrightarrow> length xs \<le> sum_list (map f xs)"
  by (induction xs) fastforce+

lemma records_of_cases:
  "d \<in> set (records_of rnd report_files) \<Longrightarrow> \<exists>doc r. d = extract_requirement_data rnd doc r"
  by (auto simp: records_of_def split: option.splits)

lemma records_of_sum:
  "d \<in> set (records_of rnd report_files) \<Longrightarrow>
   total_checks d = passed d + failed d + warnings d"
  using records_of_cases summary_record_sum by blast

lemma records_of_positive:
  "d \<in> set (records_of rnd report_files) \<Longrightarrow> 1 \<le> total_checks d"
  using records_of_cases summary_record_positive by blast

lemma sum_list_counts:
  "(\<And>d. d \<in> set xs \<Longrightarrow> total_checks d = passed d + failed d + warnings d) \<Longrightarrow>
   sum_list (map total_checks xs) =
     sum_list (map passed xs) + sum_list (map failed xs) + sum_list (map warnings xs)"
  by (induction xs) simp_all

subsection \<open>Where the status comes from\<close>

lemma stats_status:
  "(status (extract_stats rnd content), status_class (extract_stats rnd content)) =
        determine_status (compliance_pct (extract_stats rnd content))"
proof -
  have floor: "determine_status 100 = (''Compliant'', ''compliant'')"
    by (simp add: determine_status_def)
  show ?thesis
    by (simp add: extract_stats_def Let_def floor split: prod.splits)
qed

lemma summary_status:
  "(status (extract_requirement_data rnd (Inr content) r),
       status_class (extract_requirement_data rnd (Inr content) r)) =
        determine_status (compliance_pct (extract_requirement_data rnd (Inr content) r))"
proof -
  obtain t p' f w where c: "count_checks content = (t, p', f, w)"
    by (cases "count_checks content") auto
  show ?thesis by (simp add: summary_counts [OF c])
qed

lemma overall_status_determined:
  "(overall_status (generate_summary_html rnd recs ov),
       overall_status_class (generate_summary_html rnd recs ov)) =
        determine_status (overall_compliance (generate_summary_html rnd recs ov))"
  by (simp add: generate_summary_html_def Let_def split: prod.splits)

subsection \<open>Findings\<close>

lemma records_of_map:
  "records_of rnd report_files =
     map (\<lambda>(filename, doc). extract_requirement_data rnd doc (the (extract_requirement_number filename)))
       (filter (\<lambda>(filename, doc). extract_requirement_number filename \<noteq> None) report_files)"
  by (induction report_files) (auto simp: records_of_def split: option.splits)

lemma process_reports_detailed_records:
  "fst (process_reports_detailed rnd report_files (acc, ov)) =
     acc @ map (\<lambda>(filename, doc).
                  extract_requirement_data_detailed rnd doc
                    (the (extract_requirement_number filename)))
             (filter (\<lambda>(filename, doc). extract_requirement_number filename \<noteq> None)
                report_files)"
proof (induction report_files arbitrary: acc ov)
  case Nil
  show ?case by simp
next
  case (Cons x report_files)
  obtain filename doc where x: "x = (filename, doc)" by (cases x)
  show ?case
  proof (cases "extract_requirement_number filename")
    case None
    then show ?thesis by (simp add: x Cons.IH)
  next
    case (Some r)
    then have "r \<noteq> []" by (rule extract_requirement_number_nonempty)
    then show ?thesis using Some by (simp add: x Cons.IH Let_def)
  qed
qed

lemma summary_findings:
  "findings (extract_requirement_data rnd (Inr content) r) =
     map (\<lambda>match. strip_tags (strip match)) (fail_matches_of content)"
  "critical_findings (extract_requirement_data rnd (Inr content) r) =
     take 3 (findings (extract_requirement_data rnd (Inr content) r))"
  by (simp_all add: extract_requirement_data_def Let_def split: prod.splits)

lemma summary_critical_prefix:
  "critical_findings (extract_requirement_data rnd doc r) =
     take 3 (findings (extract_requirement_data rnd doc r))"
  by (cases doc) (simp_all add: summary_findings summary_error)

lemma take_3_of_8:
  "length xs = 8 \<Longrightarrow> take 3 xs = [xs ! 0, xs ! 1, xs ! 2]"
  by (cases xs; simp; cases "tl xs"; simp; cases "tl (tl xs)"; simp)

lemma detailed_findings_eq:
  "detailed_findings (extract_requirement_data_detailed rnd (Inr content) r) =
     (if map finding_of_block (fail_blocks_of content) = [] then
        map (\<lambda>indicator.
               \<lparr>finding_title = ''Failed: '' @ context_of content indicator,
                details = ''Specific details not available'',
                recommendation = ''Review the full requirement report for more information.''\<rparr>)
          (fail_indicators_of content)
      else map finding_of_block (fail_blocks_of content))"
  by (simp add: extract_requirement_data_detailed_def Let_def split: prod.splits)

lemma extract_findings_eq:
  "extract_findings content =
     (if fail_matches_of content = [] then
        concat (map (\<lambda>block.
                       (case re_search (open_tag_between ''<h3'' (lit ''</h3>'')) block of
                          Some g \<Rightarrow>
                            [\<lparr>brief_title = strip (strip_tags g),
                              brief_details = ''Click to see details in full report''\<rparr>]
                        | None \<Rightarrow> []))
                  (fail_blocks_of content))
      else map (\<lambda>match. \<lparr>brief_title = strip_tags (strip match),
                          brief_details = ''Click to see details in full report''\<rparr>)
             (fail_matches_of content))"
  by (simp add: extract_findings_def Let_def)

subsection \<open>The loops that read outside of \<^verbatim>\<open>try\<close>\<close>

lemma read_reports_clickable_append:
  "read_reports_clickable rnd (xs @ ys) acc =
     (case read_reports_clickable rnd xs acc of
        Inl e \<Rightarrow> Inl e
      | Inr acc' \<Rightarrow> read_reports_clickable rnd ys acc')"
proof (induction xs arbitrary: acc)
  case Nil
  show ?case by simp
next
  case (Cons x xs)
  obtain filename doc where x: "x = (filename, doc)" by (cases x)
  show ?case
    by (simp add: x Cons.IH split: option.splits sum.splits)
qed

lemma read_reports_fixed_append:
  "read_reports_fixed (xs @ ys) acc =
     (case read_reports_fixed xs acc of
        Inl e \<Rightarrow> Inl e
      | Inr acc' \<Rightarrow> read_reports_fixed ys acc')"
proof (induction xs arbitrary: acc)
  case Nil
  show ?case by simp
next
  case (Cons x xs)
  obtain filename doc where x: "x = (filename, doc)" by (cases x)
  show ?case
    by (simp add: x Cons.IH split: option.splits sum.splits)
qed

lemma read_reports_clickable_abort:
  assumes "read_reports_clickable rnd before acc = Inr acc'"
    and "extract_requirement_number filename = Some r"
  shows "read_reports_clickable rnd (before @ [(filename, Inl e)] @ after) acc = Inl e"
proof -
  from assms(2) have "r \<noteq> []" by (rule extract_requirement_number_nonempty)
  then show ?thesis
    using assms by (simp add: read_reports_clickable_append)
qed

lemma read_reports_fixed_abort:
  assumes "read_reports_fixed before acc = Inr acc'"
    and "extract_requirement_number filename = Some r"
  shows "read_reports_fixed (before @ [(filename, Inl e)] @ after) acc = Inl e"
proof -
  from assms(2) have "r \<noteq> []" by (rule extract_requirement_number_nonempty)
  then show ?thesis
    using assms by (simp add: read_reports_fixed_append)
qed

subsection \<open>The critical findings of a batch, from its files\<close>

lemma entries_of_files:
  "concat (map entries_of (records_of rnd report_files)) =
     concat (map (\<lambda>(filename, doc).
                    (case extract_requirement_number filename of
                       None \<Rightarrow> []
                     | Some n \<Rightarrow>
                         map (\<lambda>f. \<lparr>req = n, finding = f\<rparr>)
                           (take 3 (findings (extract_requirement_data rnd doc n)))))
               report_files)"
  by (induction report_files)
     (auto simp: records_of_def entries_of_def summary_req_num summary_critical_prefix
           split: option.splits)

lemma critical_list_of_files:
  "critical_list (snd (process_reports rnd report_files ([], initial_stats))) =
     concat (map (\<lambda>(filename, doc).
                    (case extract_requirement_number filename of
                       None \<Rightarrow> []
                     | Some n \<Rightarrow>
                         map (\<lambda>f. \<lparr>req = n, finding = f\<rparr>)
                           (take 3 (findings (extract_requirement_data rnd doc n)))))
               report_files)"
  by (simp only: batch_counts entries_of_files)

lemma main_summary:
  "report_files \<noteq> [] \<Longrightarrow>
   main rnd report_files =
     Inr (fst (process_reports rnd report_files ([], initial_stats)),
          snd (process_reports rnd report_files ([], initial_stats)),
          generate_summary_html rnd (fst (process_reports rnd report_files ([], initial_stats)))
            (snd (process_reports rnd report_files ([], initial_stats))))"
  by (simp add: main_def Let_def split: prod.splits)

lemma top_findings_eq:
  "top_findings (generate_summary_html rnd recs ov) =
     take 10 (sort_key (\<lambda>x. int_of_digits (req x)) (critical_list ov))"
  by (cases "critical_list ov = []")
     (simp_all add: generate_summary_html_def Let_def split: prod.splits)

section \<open>The claims\<close>

text \<open>
  Claim C1, as the code has it. Every record that \<^verbatim>\<open>extract_requirement_data\<close> returns,
  from content that was read (with markers or under the zero-check floor) or on the error
  path, has \<open>total_checks = passed + failed + warnings\<close> and \<open>total_checks \<ge> 1\<close>. The
  overall statistics are the sums of the per-record counts and satisfy the same equation;
  their \<open>total_checks\<close> is at least the number of records, hence at least 1 as soon as one
  document of the batch resolved.
\<close>

theorem counts_invariant:
  "(total_checks (extract_requirement_data rnd doc r) =
      passed (extract_requirement_data rnd doc r) + failed (extract_requirement_data rnd doc r)
        + warnings (extract_requirement_data rnd doc r)
    \<and> 1 \<le> total_checks (extract_requirement_data rnd doc r))
   \<and> (let recs = fst (process_reports rnd report_files ([], initial_stats));
           ov = snd (process_reports rnd report_files ([], initial_stats))
       in total_checks ov = sum_list (map total_checks recs)
          \<and> passed ov = sum_list (map passed recs)
          \<and> failed ov = sum_list (map failed recs)
          \<and> warnings ov = sum_list (map warnings recs)
          \<and> total_checks ov = passed ov + failed ov + warnings ov
          \<and> length recs \<le> total_checks ov
          \<and> (recs \<noteq> [] \<longrightarrow> 1 \<le> total_checks ov))"
proof -
  let ?recs = "records_of rnd report_files"
  have each: "\<forall>d \<in> set ?recs. 1 \<le> total_checks d"
    by (blast intro: records_of_positive)
  have len: "length ?recs \<le> sum_list (map total_checks ?recs)"
    using each by (rule length_le_sum_list)
  have sum: "sum_list (map total_checks ?recs) =
      sum_list (map passed ?recs) + sum_list (map failed ?recs) + sum_list (map warnings ?recs)"
    by (rule sum_list_counts) (rule records_of_sum)
  have pos: "?recs \<noteq> [] \<longrightarrow> 1 \<le> sum_list (map total_checks ?recs)"
    using len by (cases ?recs) auto
  show ?thesis
    using len sum pos summary_record_sum [of rnd doc r] summary_record_positive [of rnd doc r]
    by (simp add: batch_counts Let_def)
qed

text \<open>
  A batch of two resolved documents, one of them unreadable: two records, and an overall
  total of two checks.
\<close>

theorem counts_invariant_witness:
  "fst (process_reports id [(''pci_req1.html'', Inr ''[FAIL]''), (''pci_req2.html'', Inl ''denied'')]
         ([], initial_stats)) \<noteq> []
   \<and> total_checks (snd (process_reports id
         [(''pci_req1.html'', Inr ''[FAIL]''), (''pci_req2.html'', Inl ''denied'')]
         ([], initial_stats))) = 2"
proof -
  have "total_checks (snd (process_reports id
         [(''pci_req1.html'', Inr ''[FAIL]''), (''pci_req2.html'', Inl ''denied'')]
         ([], initial_stats))) = 2"
    by code_simp
  then show ?thesis
    using counts_invariant [of id "Inl ''denied''" "''2''"
        "[(''pci_req1.html'', Inr ''[FAIL]''), (''pci_req2.html'', Inl ''denied'')]"]
    by (auto simp: Let_def)
qed

text \<open>
  Claim C1 as stated fails for the overall statistics of a batch in which no file name
  resolves: the report directory holds \<^verbatim>\<open>index.html\<close> only, the loop skips it, and the
  overall \<open>total_checks\<close> stays 0 (the case for which \<^verbatim>\<open>generate_summary_html\<close> guards its
  division).
\<close>

theorem counts_invariant_counterexample:
  "main id [(''index.html'', Inr ''[PASS]'')] =
     Inr ([], initial_stats, generate_summary_html id [] initial_stats)
   \<and> total_checks (snd (process_reports id [(''index.html'', Inr ''[PASS]'')] ([], initial_stats)))
       = 0"
proof -
  have "extract_requirement_number ''index.html'' = None"
    by code_simp
  then show ?thesis
    by (simp add: main_def initial_stats_def)
qed

text \<open>
  Claim C2, as the code has it. \<^verbatim>\<open>count_checks\<close> and \<^verbatim>\<open>extract_stats\<close> return as failed
  and warning counts the maximum of the bracketed-tag count and the container-class count,
  not their sum, and as passed count the maximum as well unless all three maxima are zero:
  then the zero-check floor makes the passed count 1. In particular three \<^verbatim>\<open>[FAIL]\<close> tags
  and five failed-check containers give a failed count of 5.
\<close>

theorem count_checks_maximum:
  \<open>(case count_checks content of (checks, passed', failed', warnings') \<Rightarrow>
      failed' = max (count_matches ''[FAIL]'' content)
                    (count_matches ''<div class="check-item fail"'' content)
      \<and> warnings' = max (count_matches ''[WARN]'' content)
                        (count_matches ''<div class="check-item warning"'' content)
      \<and> (passed' = max (count_matches ''[PASS]'' content)
                       (count_matches ''<div class="check-item pass"'' content)
          \<or> (passed' = 1 \<and> failed' = 0 \<and> warnings' = 0
              \<and> max (count_matches ''[PASS]'' content)
                     (count_matches ''<div class="check-item pass"'' content) = 0))
      \<and> failed (extract_stats rnd content) = failed'
      \<and> warnings (extract_stats rnd content) = warnings'
      \<and> passed (extract_stats rnd content) = passed')
   \<and> (count_matches ''[FAIL]'' content = 3
        \<and> count_matches ''<div class="check-item fail"'' content = 5
      \<longrightarrow> failed (extract_requirement_data rnd (Inr content) r) = 5
          \<and> failed (extract_stats rnd content) = 5)\<close>
proof -
  obtain t p f w where c: "count_checks content = (t, p, f, w)"
    by (cases "count_checks content") auto
  have f: \<open>f = max (count_matches ''[FAIL]'' content)
                  (count_matches ''<div class="check-item fail"'' content)\<close>
    and w: \<open>w = max (count_matches ''[WARN]'' content)
                  (count_matches ''<div class="check-item warning"'' content)\<close>
    and p: \<open>p = max (count_matches ''[PASS]'' content)
                  (count_matches ''<div class="check-item pass"'' content)
          \<or> (p = 1 \<and> f = 0 \<and> w = 0
              \<and> max (count_matches ''[PASS]'' content)
                     (count_matches ''<div class="check-item pass"'' content) = 0)\<close>
    using c by (auto simp: count_checks_def Let_def split: if_splits)
  have five: \<open>count_matches ''[FAIL]'' content = 3
        \<and> count_matches ''<div class="check-item fail"'' content = 5 \<longrightarrow> f = 5\<close>
    using f by simp
  show ?thesis
    using f w p five by (simp add: c summary_counts [OF c] stats_counts [OF c])
qed

text \<open>The example document has three tags and five containers, and a failed count of 5.\<close>

theorem count_checks_maximum_witness:
  \<open>count_matches ''[FAIL]'' three_and_five = 3
   \<and> count_matches ''<div class="check-item fail"'' three_and_five = 5
   \<and> failed (extract_requirement_data id (Inr three_and_five) ''3'') = 5
   \<and> failed (extract_stats id three_and_five) = 5\<close>
proof -
  have n: \<open>count_matches ''[FAIL]'' three_and_five = 3\<close>
    \<open>count_matches ''<div class="check-item fail"'' three_and_five = 5\<close>
    by code_simp+
  show ?thesis
    using count_checks_maximum [of three_and_five id "''3''"] by (simp add: n)
qed

text \<open>
  Claim C2 as stated fails for the passed count of a document without markers, the empty
  document for one: both strategies count 0, and the passed count returned is 1.
\<close>

theorem count_checks_maximum_counterexample:
  \<open>fst (snd (count_checks [])) = 1
   \<and> max (count_matches ''[PASS]'' []) (count_matches ''<div class="check-item pass"'' []) = 0\<close>
  by code_simp

text \<open>
  Claim C3. If both counting strategies find no pass, fail or warn marker in the content,
  the record has \<open>total_checks = 1\<close>, \<open>passed = 1\<close>, \<open>failed = 0\<close>, \<open>warnings = 0\<close>, a
  compliance percentage of 100 and the status "Compliant"; so have the statistics of
  \<^verbatim>\<open>extract_stats\<close>.
\<close>

theorem zero_check_floor:
  assumes "float_rounding rnd"
    and "count_matches ''[PASS]'' content = 0"
    and "count_matches ''[FAIL]'' content = 0"
    and "count_matches ''[WARN]'' content = 0"
    and \<open>count_matches ''<div class="check-item pass"'' content = 0\<close>
    and \<open>count_matches ''<div class="check-item fail"'' content = 0\<close>
    and \<open>count_matches ''<div class="check-item warning"'' content = 0\<close>
  shows "count_checks content = (1, 1, 0, 0)
    \<and> total_checks (extract_requirement_data rnd (Inr content) r) = 1
    \<and> passed (extract_requirement_data rnd (Inr content) r) = 1
    \<and> failed (extract_requirement_data rnd (Inr content) r) = 0
    \<and> warnings (extract_requirement_data rnd (Inr content) r) = 0
    \<and> compliance_pct (extract_requirement_data rnd (Inr content) r) = 100
    \<and> status (extract_requirement_data rnd (Inr content) r) = ''Compliant''
    \<and> extract_stats rnd content =
         \<lparr>total_checks = 1, passed = 1, failed = 0, warnings = 0, compliance_pct = 100,
          status = ''Compliant'', status_class = ''compliant''\<rparr>"
proof -
  have c: "count_checks content = (1, 1, 0, 0)"
    using assms(2-) by (simp add: count_checks_def)
  have pct: "compliance_percentage rnd (Suc 0) (Suc 0) = 100"
    using assms(1) by (simp add: compliance_percentage_all_passed)
  have st: "extract_stats rnd content =
         \<lparr>total_checks = 1, passed = 1, failed = 0, warnings = 0, compliance_pct = 100,
          status = ''Compliant'', status_class = ''compliant''\<rparr>"
    using assms(2-) by (simp add: extract_stats_def)
  show ?thesis
    by (simp add: c summary_counts [OF c] pct st determine_status_def)
qed

text \<open>A report with a heading and no marker.\<close>

theorem zero_check_floor_witness:
  "float_rounding id
   \<and> count_matches ''[PASS]'' ''<h1>Requirement 5</h1> nothing to report'' = 0
   \<and> status (extract_requirement_data id (Inr ''<h1>Requirement 5</h1> nothing to report'') ''5'')
       = ''Compliant''
   \<and> compliance_pct (extract_requirement_data id (Inr ''<h1>Requirement 5</h1> nothing to report'') ''5'')
       = 100"
proof -
  let ?c = "''<h1>Requirement 5</h1> nothing to report''"
  have z: "count_matches ''[PASS]'' ?c = 0" "count_matches ''[FAIL]'' ?c = 0"
    "count_matches ''[WARN]'' ?c = 0"
    \<open>count_matches ''<div class="check-item pass"'' ?c = 0\<close>
    \<open>count_matches ''<div class="check-item fail"'' ?c = 0\<close>
    \<open>count_matches ''<div class="check-item warning"'' ?c = 0\<close>
    by code_simp+
  from zero_check_floor [OF float_rounding_id z, of "''5''"] show ?thesis
    by (simp add: float_rounding_id z)
qed

text \<open>
  Claim C4. The status is a function of the percentage alone, with inclusive lower bounds:
  from 90 on "Compliant", from 70 up to but excluding 90 "Partially Compliant", below 70
  "Non-Compliant"; 90 and 70 themselves belong to the higher tier. The same classification
  gives the status of a requirement from its percentage and the overall status from the
  overall percentage.
\<close>

theorem status_classifier_thresholds:
  "(90 \<le> p \<longrightarrow> determine_status p = (''Compliant'', ''compliant''))
   \<and> (70 \<le> q \<and> q < 90 \<longrightarrow> determine_status q = (''Partially Compliant'', ''partial''))
   \<and> (x < 70 \<longrightarrow> determine_status x = (''Non-Compliant'', ''non-compliant''))
   \<and> determine_status 90 = (''Compliant'', ''compliant'')
   \<and> determine_status 70 = (''Partially Compliant'', ''partial'')
   \<and> (status (extract_requirement_data rnd (Inr content) r),
       status_class (extract_requirement_data rnd (Inr content) r)) =
        determine_status (compliance_pct (extract_requirement_data rnd (Inr content) r))
   \<and> (overall_status (generate_summary_html rnd recs ov),
       overall_status_class (generate_summary_html rnd recs ov)) =
        determine_status (overall_compliance (generate_summary_html rnd recs ov))
   \<and> (status (extract_stats rnd content), status_class (extract_stats rnd content)) =
        determine_status (compliance_pct (extract_stats rnd content))"
proof -
  have cl: "(90 \<le> p \<longrightarrow> determine_status p = (''Compliant'', ''compliant''))
   \<and> (70 \<le> q \<and> q < 90 \<longrightarrow> determine_status q = (''Partially Compliant'', ''partial''))
   \<and> (x < 70 \<longrightarrow> determine_status x = (''Non-Compliant'', ''non-compliant''))
   \<and> determine_status 90 = (''Compliant'', ''compliant'')
   \<and> determine_status 70 = (''Partially Compliant'', ''partial'')"
    by (simp add: determine_status_def)
  show ?thesis
    using cl summary_status [of rnd content r] overall_status_determined [of rnd recs ov]
      stats_status [of rnd content]
    by blast
qed

text \<open>The percentages 95, 89 and 69, one in each tier.\<close>

theorem status_classifier_thresholds_witness:
  "(90::rat) \<le> 95 \<and> (70::rat) \<le> 89 \<and> (89::rat) < 90 \<and> (69::rat) < 70
   \<and> determine_status 95 = (''Compliant'', ''compliant'')
   \<and> determine_status 89 = (''Partially Compliant'', ''partial'')
   \<and> determine_status 69 = (''Non-Compliant'', ''non-compliant'')"
  using status_classifier_thresholds [of 95 89 69 id "[]" "''1''" "[]" initial_stats]
  by simp

text \<open>
  Claim C5, as the code has it. \<^verbatim>\<open>extract_detailed_findings\<close> of
  \<^verbatim>\<open>card_report_with_clickable.py\<close> takes the failed-check blocks first: if there is any
  block, the findings are those of the blocks. Only without a block does it turn to the
  \<^verbatim>\<open>[FAIL]\<close> spans that a closing heading follows, one finding for each, and a content
  with no block and exactly one such span gives exactly one finding, made from that span,
  with fixed texts as details and recommendation. \<^verbatim>\<open>extract_requirement_data\<close> of
  \<^verbatim>\<open>create_card_based_report.py\<close> and \<^verbatim>\<open>generate_interactive_summary.py\<close> has the same
  order, but its second strategy takes every red span whose text contains \<^verbatim>\<open>[FAIL]\<close>,
  followed by a closing heading or not: one finding for each, and exactly one, with fixed
  texts as details and recommendation, for a content with no block and exactly one such
  span. \<^verbatim>\<open>extract_findings\<close> of \<^verbatim>\<open>fix_card_report.py\<close> takes the other order: if there is
  any \<^verbatim>\<open>[FAIL]\<close> span with a closing heading, its findings are those of the spans, and
  only without one those of the blocks that have a heading; its findings carry a title and
  one fixed text as details.
\<close>

theorem finding_extractor_fallback:
  "(fail_blocks_of ca \<noteq> [] \<longrightarrow>
      extract_detailed_findings ca = map finding_of_block (fail_blocks_of ca)
      \<and> detailed_findings (extract_requirement_data_detailed rnd (Inr ca) r) =
          map finding_of_block (fail_blocks_of ca))
   \<and> (fail_blocks_of cb = [] \<longrightarrow>
      extract_detailed_findings cb =
        map (\<lambda>match.
               \<lparr>finding_title = strip_tags (strip match),
                details = ''Specific details not available in the report.'',
                recommendation =
                  ''Review the full requirement report for detailed recommendations.''\<rparr>)
          (fail_matches_of cb)
      \<and> detailed_findings (extract_requirement_data_detailed rnd (Inr cb) r) =
          map (\<lambda>indicator.
                 \<lparr>finding_title = ''Failed: '' @ context_of cb indicator,
                  details = ''Specific details not available'',
                  recommendation =
                    ''Review the full requirement report for more information.''\<rparr>)
            (fail_indicators_of cb))
   \<and> (fail_blocks_of cb = [] \<and> fail_matches_of cb = [m] \<longrightarrow>
      extract_detailed_findings cb =
        [\<lparr>finding_title = strip_tags (strip m),
          details = ''Specific details not available in the report.'',
          recommendation =
            ''Review the full requirement report for detailed recommendations.''\<rparr>])
   \<and> (fail_blocks_of cb = [] \<and> fail_indicators_of cb = [i] \<longrightarrow>
      detailed_findings (extract_requirement_data_detailed rnd (Inr cb) r) =
        [\<lparr>finding_title = ''Failed: '' @ context_of cb i,
          details = ''Specific details not available'',
          recommendation = ''Review the full requirement report for more information.''\<rparr>])
   \<and> (fail_matches_of cc \<noteq> [] \<longrightarrow>
      extract_findings cc =
        map (\<lambda>match. \<lparr>brief_title = strip_tags (strip match),
                      brief_details = ''Click to see details in full report''\<rparr>)
          (fail_matches_of cc))
   \<and> (fail_matches_of cd = [] \<longrightarrow>
      extract_findings cd =
        concat (map (\<lambda>block.
                       (case re_search (open_tag_between ''<h3'' (lit ''</h3>'')) block of
                          Some g \<Rightarrow>
                            [\<lparr>brief_title = strip (strip_tags g),
                              brief_details = ''Click to see details in full report''\<rparr>]
                        | None \<Rightarrow> []))
                  (fail_blocks_of cd)))"
  by (simp add: detailed_findings_eq extract_detailed_findings_def extract_findings_eq Let_def)

text \<open>
  The report with a block and a span for the blocks first and for the spans first in
  \<^verbatim>\<open>fix_card_report.py\<close>, the report with the span only for the second strategy of the
  other scripts, the report with the block only for the blocks in \<^verbatim>\<open>fix_card_report.py\<close>.
\<close>

theorem finding_extractor_fallback_witness:
  \<open>fail_blocks_of block_and_marker \<noteq> []
   \<and> extract_detailed_findings block_and_marker =
        [\<lparr>finding_title = ''Open port'', details = ''22 is open'',
          recommendation = ''close it''\<rparr>]
   \<and> detailed_findings (extract_requirement_data_detailed id (Inr block_and_marker) ''2'') =
        [\<lparr>finding_title = ''Open port'', details = ''22 is open'',
          recommendation = ''close it''\<rparr>]
   \<and> fail_blocks_of marker_only = []
   \<and> fail_matches_of marker_only = ['' Weak cipher'']
   \<and> fail_indicators_of marker_only = [''[FAIL]'']
   \<and> extract_detailed_findings marker_only =
        [\<lparr>finding_title = ''Weak cipher'',
          details = ''Specific details not available in the report.'',
          recommendation =
            ''Review the full requirement report for detailed recommendations.''\<rparr>]
   \<and> detailed_findings (extract_requirement_data_detailed id (Inr marker_only) ''2'') =
        [\<lparr>finding_title = ''Failed: Weak cipher'',
          details = ''Specific details not available'',
          recommendation = ''Review the full requirement report for more information.''\<rparr>]
   \<and> fail_matches_of block_and_marker \<noteq> []
   \<and> extract_findings block_and_marker =
        [\<lparr>brief_title = ''Weak cipher'',
          brief_details = ''Click to see details in full report''\<rparr>]
   \<and> fail_matches_of block_only = []
   \<and> extract_findings block_only =
        [\<lparr>brief_title = ''Open port'',
          brief_details = ''Click to see details in full report''\<rparr>]\<close>
proof -
  note t = finding_extractor_fallback
      [of block_and_marker id "''2''" marker_only "'' Weak cipher''" "''[FAIL]''"
          block_and_marker block_only]
  have h1: "fail_blocks_of block_and_marker \<noteq> []"
    by code_simp
  have e1: "map finding_of_block (fail_blocks_of block_and_marker) =
      [\<lparr>finding_title = ''Open port'', details = ''22 is open'',
        recommendation = ''close it''\<rparr>]"
    by code_simp
  have h2: "fail_blocks_of marker_only = []"
    by code_simp
  have h3: "fail_matches_of marker_only = ['' Weak cipher'']"
    by code_simp
  have h4: "fail_indicators_of marker_only = [''[FAIL]'']"
    by code_simp
  have e3: "strip_tags (strip '' Weak cipher'') = ''Weak cipher''"
    by code_simp
  have e4: "''Failed: '' @ context_of marker_only ''[FAIL]'' = ''Failed: Weak cipher''"
    by code_simp
  have h5: "fail_matches_of block_and_marker \<noteq> []"
    by code_simp
  have e5: "map (\<lambda>match. \<lparr>brief_title = strip_tags (strip match),
                      brief_details = ''Click to see details in full report''\<rparr>)
          (fail_matches_of block_and_marker) =
      [\<lparr>brief_title = ''Weak cipher'',
        brief_details = ''Click to see details in full report''\<rparr>]"
    by code_simp
  have h6: "fail_matches_of block_only = []"
    by code_simp
  have e6: "concat (map (\<lambda>block.
                       (case re_search (open_tag_between ''<h3'' (lit ''</h3>'')) block of
                          Some g \<Rightarrow>
                            [\<lparr>brief_title = strip (strip_tags g),
                              brief_details = ''Click to see details in full report''\<rparr>]
                        | None \<Rightarrow> []))
                  (fail_blocks_of block_only)) =
      [\<lparr>brief_title = ''Open port'',
        brief_details = ''Click to see details in full report''\<rparr>]"
    by code_simp
  from t h1 have "extract_detailed_findings block_and_marker =
        map finding_of_block (fail_blocks_of block_and_marker)
      \<and> detailed_findings (extract_requirement_data_detailed id (Inr block_and_marker) ''2'') =
        map finding_of_block (fail_blocks_of block_and_marker)"
    by blast
  then have c1: "extract_detailed_findings block_and_marker =
        [\<lparr>finding_title = ''Open port'', details = ''22 is open'',
          recommendation = ''close it''\<rparr>]
      \<and> detailed_findings (extract_requirement_data_detailed id (Inr block_and_marker) ''2'') =
        [\<lparr>finding_title = ''Open port'', details = ''22 is open'',
          recommendation = ''close it''\<rparr>]"
    by (simp only: e1)
  from t h2 h3 have "extract_detailed_findings marker_only =
        [\<lparr>finding_title = strip_tags (strip '' Weak cipher''),
          details = ''Specific details not available in the report.'',
          recommendation =
            ''Review the full requirement report for detailed recommendations.''\<rparr>]"
    by blast
  then have c2: "extract_detailed_findings marker_only =
        [\<lparr>finding_title = ''Weak cipher'',
          details = ''Specific details not available in the report.'',
          recommendation =
            ''Review the full requirement report for detailed recommendations.''\<rparr>]"
    by (simp only: e3)
  from t h2 h4 have "detailed_findings (extract_requirement_data_detailed id (Inr marker_only) ''2'') =
        [\<lparr>finding_title = ''Failed: '' @ context_of marker_only ''[FAIL]'',
          details = ''Specific details not available'',
          recommendation = ''Review the full requirement report for more information.''\<rparr>]"
    by blast
  then have c3: "detailed_findings (extract_requirement_data_detailed id (Inr marker_only) ''2'') =
        [\<lparr>finding_title = ''Failed: Weak cipher'',
          details = ''Specific details not available'',
          recommendation = ''Review the full requirement report for more information.''\<rparr>]"
    by (simp only: e4)
  from t h5 have "extract_findings block_and_marker =
        map (\<lambda>match. \<lparr>brief_title = strip_tags (strip match),
                      brief_details = ''Click to see details in full report''\<rparr>)
          (fail_matches_of block_and_marker)"
    by blast
  then have c4: "extract_findings block_and_marker =
        [\<lparr>brief_title = ''Weak cipher'',
          brief_details = ''Click to see details in full report''\<rparr>]"
    by (simp only: e5)
  from t h6 have "extract_findings block_only =
        concat (map (\<lambda>block.
                       (case re_search (open_tag_between ''<h3'' (lit ''</h3>'')) block of
                          Some g \<Rightarrow>
                            [\<lparr>brief_title = strip (strip_tags g),
                              brief_details = ''Click to see details in full report''\<rparr>]
                        | None \<Rightarrow> []))
                  (fail_blocks_of block_only))"
    by blast
  then have c5: "extract_findings block_only =
        [\<lparr>brief_title = ''Open port'',
          brief_details = ''Click to see details in full report''\<rparr>]"
    by (simp only: e6)
  show ?thesis
    using h1 c1 h2 h3 h4 c2 c3 h5 c4 h6 c5 by blast
qed

text \<open>
  Claim C5 as stated fails twice. In \<^verbatim>\<open>extract_findings\<close> of \<^verbatim>\<open>fix_card_report.py\<close> the
  order is the other one: on the report with a block and a span the blocks yield the
  finding "Open port", and what is returned is the finding of the span. In
  \<^verbatim>\<open>extract_requirement_data\<close> of \<^verbatim>\<open>create_card_based_report.py\<close> the second strategy
  does not ask for a closing heading: the report with two spans has no block and exactly
  one span followed by a closing heading, and two findings are returned.
\<close>

theorem finding_extractor_fallback_counterexample:
  \<open>fail_blocks_of block_and_marker =
     [''<h3>Open port</h3><div>22 is open</div><strong>Recommendation:</strong> close it<br>'']
   \<and> map finding_of_block (fail_blocks_of block_and_marker) =
     [\<lparr>finding_title = ''Open port'', details = ''22 is open'', recommendation = ''close it''\<rparr>]
   \<and> extract_findings block_and_marker =
     [\<lparr>brief_title = ''Weak cipher'', brief_details = ''Click to see details in full report''\<rparr>]
   \<and> fail_blocks_of two_markers_one_heading = []
   \<and> fail_matches_of two_markers_one_heading = ['' Weak cipher'']
   \<and> detailed_findings
         (extract_requirement_data_detailed id (Inr two_markers_one_heading) ''2'') =
     [\<lparr>finding_title = ''Failed: Weak cipher'',
       details = ''Specific details not available'',
       recommendation = ''Review the full requirement report for more information.''\<rparr>,
      \<lparr>finding_title = ''Failed: Weak cipher'',
       details = ''Specific details not available'',
       recommendation = ''Review the full requirement report for more information.''\<rparr>]\<close>
  by code_simp

text \<open>
  Claim C6, as the code has it. In \<^verbatim>\<open>generate_interactive_summary.py\<close> and in
  \<^verbatim>\<open>generate_summary_report.py\<close> an exception while the content is read or parsed is
  caught and gives the synthetic record, with the counts total 1, failed 1, passed 0,
  warnings 0; the batch yields exactly one record for every file whose name resolves, in
  the order of the files, whether reading it failed or not, so the files before and after
  an unreadable one get their records as they would without it. The synthetic record of
  \<^verbatim>\<open>generate_interactive_summary.py\<close> has one finding titled "Error processing report"
  whose details end in the text of the exception. The synthetic record of
  \<^verbatim>\<open>generate_summary_report.py\<close> has the title "Error processing report" as its only
  finding and does not depend on the text of the exception. The loops of
  \<^verbatim>\<open>card_report_with_clickable.py\<close>, \<^verbatim>\<open>fix_card_report.py\<close> and
  \<^verbatim>\<open>create_explicit_layout_report.py\<close> read outside of any \<^verbatim>\<open>try\<close>: when the files before
  it were read, an unreadable file whose name resolves ends the batch with its exception,
  and no record is returned.
\<close>

theorem error_record_per_document:
  "extract_requirement_data_detailed rnd (Inl e) r =
     \<lparr>total_checks = 1, passed = 0, failed = 1, warnings = 0,
      compliance_pct = 0, status = ''Unknown'', status_class = ''non-compliant'',
      req_num = r, title = ''Requirement '' @ r,
      findings = [''Error processing report''],
      detailed_findings =
        [\<lparr>finding_title = ''Error processing report'',
          details = ''An error occurred while processing this report: '' @ e,
          recommendation = ''Check the original report file for details.''\<rparr>]\<rparr>
   \<and> fst (process_reports_detailed rnd report_files ([], initial_stats_detailed)) =
       map (\<lambda>(filename, doc).
              extract_requirement_data_detailed rnd doc
                (the (extract_requirement_number filename)))
         (filter (\<lambda>(filename, doc). extract_requirement_number filename \<noteq> None) report_files)
   \<and> fst (process_reports_detailed rnd (before @ [(filename, Inl e)] @ after)
            ([], initial_stats_detailed)) =
       fst (process_reports_detailed rnd before ([], initial_stats_detailed))
       @ fst (process_reports_detailed rnd [(filename, Inl e)] ([], initial_stats_detailed))
       @ fst (process_reports_detailed rnd after ([], initial_stats_detailed))
   \<and> extract_requirement_data rnd (Inl e) r =
     \<lparr>total_checks = 1, passed = 0, failed = 1, warnings = 0,
      compliance_pct = 0, status = ''Unknown'', status_class = ''non-compliant'',
      req_num = r, title = ''Requirement '' @ r,
      findings = [''Error processing report''],
      critical_findings = [''Error processing report'']\<rparr>
   \<and> extract_requirement_data rnd (Inl e) r = extract_requirement_data rnd (Inl e') r
   \<and> total_checks (extract_requirement_data rnd (Inl e) r) = 1
   \<and> passed (extract_requirement_data rnd (Inl e) r) = 0
   \<and> failed (extract_requirement_data rnd (Inl e) r) = 1
   \<and> warnings (extract_requirement_data rnd (Inl e) r) = 0
   \<and> findings (extract_requirement_data rnd (Inl e) r) = [''Error processing report'']
   \<and> fst (process_reports rnd report_files ([], initial_stats)) =
       map (\<lambda>(filename, doc).
              extract_requirement_data rnd doc (the (extract_requirement_number filename)))
         (filter (\<lambda>(filename, doc). extract_requirement_number filename \<noteq> None) report_files)
   \<and> length (fst (process_reports rnd report_files ([], initial_stats))) =
       length (filter (\<lambda>(filename, doc). extract_requirement_number filename \<noteq> None)
                 report_files)
   \<and> fst (process_reports rnd (before @ [(filename, Inl e)] @ after) ([], initial_stats)) =
       fst (process_reports rnd before ([], initial_stats))
       @ fst (process_reports rnd [(filename, Inl e)] ([], initial_stats))
       @ fst (process_reports rnd after ([], initial_stats))
   \<and> (read_reports_clickable rnd before [] = Inr acc
        \<and> extract_requirement_number filename = Some r \<longrightarrow>
      read_reports_clickable rnd (before @ [(filename, Inl e)] @ after) [] = Inl e)
   \<and> (read_reports_fixed before [] = Inr acc'
        \<and> extract_requirement_number filename = Some r \<longrightarrow>
      read_reports_fixed (before @ [(filename, Inl e)] @ after) [] = Inl e)"
proof -
  have recs: "fst (process_reports rnd report_files ([], initial_stats)) =
       map (\<lambda>(filename, doc).
              extract_requirement_data rnd doc (the (extract_requirement_number filename)))
         (filter (\<lambda>(filename, doc). extract_requirement_number filename \<noteq> None) report_files)"
    for report_files
    by (simp add: batch_counts records_of_map)
  have len: "length (fst (process_reports rnd report_files ([], initial_stats))) =
       length (filter (\<lambda>(filename, doc). extract_requirement_number filename \<noteq> None)
                 report_files)"
    by (simp add: recs)
  have app: "fst (process_reports rnd (before @ [(filename, Inl e)] @ after) ([], initial_stats)) =
       fst (process_reports rnd before ([], initial_stats))
       @ fst (process_reports rnd [(filename, Inl e)] ([], initial_stats))
       @ fst (process_reports rnd after ([], initial_stats))"
    by (simp only: recs filter_append map_append)
  have drecs: "fst (process_reports_detailed rnd report_files ([], initial_stats_detailed)) =
       map (\<lambda>(filename, doc).
              extract_requirement_data_detailed rnd doc
                (the (extract_requirement_number filename)))
         (filter (\<lambda>(filename, doc). extract_requirement_number filename \<noteq> None) report_files)"
    for report_files
    by (simp add: process_reports_detailed_records)
  have dapp: "fst (process_reports_detailed rnd (before @ [(filename, Inl e)] @ after)
            ([], initial_stats_detailed)) =
       fst (process_reports_detailed rnd before ([], initial_stats_detailed))
       @ fst (process_reports_detailed rnd [(filename, Inl e)] ([], initial_stats_detailed))
       @ fst (process_reports_detailed rnd after ([], initial_stats_detailed))"
    by (simp only: drecs filter_append map_append)
  have syn: "extract_requirement_data_detailed rnd (Inl e) r =
     \<lparr>total_checks = 1, passed = 0, failed = 1, warnings = 0,
      compliance_pct = 0, status = ''Unknown'', status_class = ''non-compliant'',
      req_num = r, title = ''Requirement '' @ r,
      findings = [''Error processing report''],
      detailed_findings =
        [\<lparr>finding_title = ''Error processing report'',
          details = ''An error occurred while processing this report: '' @ e,
          recommendation = ''Check the original report file for details.''\<rparr>]\<rparr>"
    by (simp add: extract_requirement_data_detailed_def)
  have bare: "extract_requirement_data rnd (Inl e) r =
     \<lparr>total_checks = 1, passed = 0, failed = 1, warnings = 0,
      compliance_pct = 0, status = ''Unknown'', status_class = ''non-compliant'',
      req_num = r, title = ''Requirement '' @ r,
      findings = [''Error processing report''],
      critical_findings = [''Error processing report'']\<rparr>"
    by (simp add: extract_requirement_data_def)
  have same: "extract_requirement_data rnd (Inl e) r = extract_requirement_data rnd (Inl e') r"
    by (simp add: extract_requirement_data_def)
  have ab1: "read_reports_clickable rnd before [] = Inr acc
        \<and> extract_requirement_number filename = Some r \<longrightarrow>
      read_reports_clickable rnd (before @ [(filename, Inl e)] @ after) [] = Inl e"
    using read_reports_clickable_abort by blast
  have ab2: "read_reports_fixed before [] = Inr acc'
        \<and> extract_requirement_number filename = Some r \<longrightarrow>
      read_reports_fixed (before @ [(filename, Inl e)] @ after) [] = Inl e"
    using read_reports_fixed_abort by blast
  have cnt: "total_checks (extract_requirement_data rnd (Inl e) r) = 1"
    "passed (extract_requirement_data rnd (Inl e) r) = 0"
    "failed (extract_requirement_data rnd (Inl e) r) = 1"
    "warnings (extract_requirement_data rnd (Inl e) r) = 0"
    "findings (extract_requirement_data rnd (Inl e) r) = [''Error processing report'']"
    by (simp_all add: summary_error)
  show ?thesis
    using syn recs [of report_files] drecs [of report_files] len app dapp bare same ab1 ab2 cnt
    by blast
qed

text \<open>
  The batch of three files: the first is read, the name of the second resolves, and the
  exception of the second ends both loops.
\<close>

theorem error_record_per_document_witness:
  "read_reports_clickable id [(''pci_req1.html'', Inr ''[PASS]'')] [] =
     Inr [\<lparr>card_req_num = ''1'', card_title = ''Requirement 1'', card_findings = [],
           card_stats = \<lparr>total_checks = 1, passed = 1, failed = 0, warnings = 0,
                          compliance_pct = 100, status = ''Compliant'',
                          status_class = ''compliant''\<rparr>\<rparr>]
   \<and> read_reports_fixed [(''pci_req1.html'', Inr ''[PASS]'')] [] =
     Inr [\<lparr>brief_req_num = ''1'', brief_req_title = ''Requirement 1'', brief_findings = []\<rparr>]
   \<and> extract_requirement_number ''pci_req2.html'' = Some ''2''
   \<and> read_reports_clickable id
        ([(''pci_req1.html'', Inr ''[PASS]'')] @ [(''pci_req2.html'', Inl ''invalid start byte'')]
         @ [(''pci_req3.html'', Inr ''[FAIL]'')]) [] = Inl ''invalid start byte''
   \<and> read_reports_fixed
        ([(''pci_req1.html'', Inr ''[PASS]'')] @ [(''pci_req2.html'', Inl ''invalid start byte'')]
         @ [(''pci_req3.html'', Inr ''[FAIL]'')]) [] = Inl ''invalid start byte''"
proof -
  have h1: "read_reports_clickable id [(''pci_req1.html'', Inr ''[PASS]'')] [] =
     Inr [\<lparr>card_req_num = ''1'', card_title = ''Requirement 1'', card_findings = [],
           card_stats = \<lparr>total_checks = 1, passed = 1, failed = 0, warnings = 0,
                          compliance_pct = 100, status = ''Compliant'',
                          status_class = ''compliant''\<rparr>\<rparr>]"
    by code_simp
  have h2: "read_reports_fixed [(''pci_req1.html'', Inr ''[PASS]'')] [] =
     Inr [\<lparr>brief_req_num = ''1'', brief_req_title = ''Requirement 1'', brief_findings = []\<rparr>]"
    by code_simp
  have h3: "extract_requirement_number ''pci_req2.html'' = Some ''2''"
    by code_simp
  note t = error_record_per_document [where rnd = id and before = "[(''pci_req1.html'', Inr ''[PASS]'')]"
      and filename = "''pci_req2.html''" and r = "''2''" and e = "''invalid start byte''"
      and after = "[(''pci_req3.html'', Inr ''[FAIL]'')]"
      and acc = "[\<lparr>card_req_num = ''1'', card_title = ''Requirement 1'', card_findings = [],
           card_stats = \<lparr>total_checks = 1, passed = 1, failed = 0, warnings = 0,
                          compliance_pct = 100, status = ''Compliant'',
                          status_class = ''compliant''\<rparr>\<rparr>]"
      and acc' = "[\<lparr>brief_req_num = ''1'', brief_req_title = ''Requirement 1'', brief_findings = []\<rparr>]"]
  from t h1 h3 have c1: "read_reports_clickable id
        ([(''pci_req1.html'', Inr ''[PASS]'')] @ [(''pci_req2.html'', Inl ''invalid start byte'')]
         @ [(''pci_req3.html'', Inr ''[FAIL]'')]) [] = Inl ''invalid start byte''"
    by blast
  from t h2 h3 have c2: "read_reports_fixed
        ([(''pci_req1.html'', Inr ''[PASS]'')] @ [(''pci_req2.html'', Inl ''invalid start byte'')]
         @ [(''pci_req3.html'', Inr ''[FAIL]'')]) [] = Inl ''invalid start byte''"
    by blast
  show ?thesis using h1 h2 h3 c1 c2 by blast
qed

text \<open>
  Claim C6 as stated fails in \<^verbatim>\<open>generate_summary_report.py\<close>, where the synthetic record
  holds the bare title and is the same record for two different exceptions, and in the
  scripts that read outside of \<^verbatim>\<open>try\<close>, where the batch of three files yields no record
  at all.
\<close>

theorem error_record_per_document_counterexample:
  "extract_requirement_data id (Inl ''invalid start byte'') ''2'' =
     \<lparr>total_checks = 1, passed = 0, failed = 1, warnings = 0,
      compliance_pct = 0, status = ''Unknown'', status_class = ''non-compliant'',
      req_num = ''2'', title = ''Requirement 2'',
      findings = [''Error processing report''],
      critical_findings = [''Error processing report'']\<rparr>
   \<and> extract_requirement_data id (Inl ''invalid start byte'') ''2'' =
       extract_requirement_data id (Inl ''permission denied'') ''2''
   \<and> read_reports_clickable id readable_then_unreadable [] = Inl ''invalid start byte''
   \<and> read_reports_fixed readable_then_unreadable [] = Inl ''invalid start byte''"
  by code_simp

text \<open>
  A batch of three reports, the second of which cannot be decoded, in
  \<^verbatim>\<open>generate_interactive_summary.py\<close>: three records, the second with the status "Unknown"
  and one failed check.
\<close>

lemma batch_with_unreadable_report:
  "map (\<lambda>d. (req_num d, status d, total_checks d, failed d))
     (fst (process_reports_detailed id readable_then_unreadable ([], initial_stats_detailed))) =
   [(''1'', ''Compliant'', 1, 0), (''2'', ''Unknown'', 1, 1), (''3'', ''Non-Compliant'', 1, 1)]"
  by code_simp

text \<open>
  Claim C7, as the code has it. A record made from content that was read carries one of the
  three labels "Compliant", "Partially Compliant" and "Non-Compliant", the one that the
  thresholds give for its percentage. The synthetic record of the error path carries the
  label "Unknown", with the percentage 0. The status class of every record is one of the
  three tiers.
\<close>

theorem record_status_labels:
  "(status (extract_requirement_data rnd (Inr content) r) = ''Compliant''
      \<or> status (extract_requirement_data rnd (Inr content) r) = ''Partially Compliant''
      \<or> status (extract_requirement_data rnd (Inr content) r) = ''Non-Compliant'')
   \<and> status (extract_requirement_data rnd (Inr content) r) =
       fst (determine_status (compliance_pct (extract_requirement_data rnd (Inr content) r)))
   \<and> (status (extract_requirement_data_detailed rnd (Inr content) r) = ''Compliant''
      \<or> status (extract_requirement_data_detailed rnd (Inr content) r) = ''Partially Compliant''
      \<or> status (extract_requirement_data_detailed rnd (Inr content) r) = ''Non-Compliant'')
   \<and> status (extract_requirement_data_detailed rnd (Inr content) r) =
       fst (determine_status
              (compliance_pct (extract_requirement_data_detailed rnd (Inr content) r)))
   \<and> status (extract_requirement_data rnd (Inl e) r) = ''Unknown''
   \<and> status (extract_requirement_data_detailed rnd (Inl e) r) = ''Unknown''
   \<and> compliance_pct (extract_requirement_data rnd (Inl e) r) = 0
   \<and> compliance_pct (extract_requirement_data_detailed rnd (Inl e) r) = 0
   \<and> (status_class (extract_requirement_data rnd doc r) = ''compliant''
      \<or> status_class (extract_requirement_data rnd doc r) = ''partial''
      \<or> status_class (extract_requirement_data rnd doc r) = ''non-compliant'')
   \<and> (status_class (extract_requirement_data_detailed rnd doc r) = ''compliant''
      \<or> status_class (extract_requirement_data_detailed rnd doc r) = ''partial''
      \<or> status_class (extract_requirement_data_detailed rnd doc r) = ''non-compliant'')"
proof -
  obtain t p f w where c: "count_checks content = (t, p, f, w)"
    by (cases "count_checks content") auto
  have lab: "\<And>x. fst (determine_status x) = ''Compliant''
      \<or> fst (determine_status x) = ''Partially Compliant''
      \<or> fst (determine_status x) = ''Non-Compliant''"
    by (simp add: determine_status_def)
  have cls: "\<And>x. snd (determine_status x) = ''compliant''
      \<or> snd (determine_status x) = ''partial''
      \<or> snd (determine_status x) = ''non-compliant''"
    by (simp add: determine_status_def)
  have err: "status (extract_requirement_data rnd (Inl e) r) = ''Unknown''"
    "status (extract_requirement_data_detailed rnd (Inl e) r) = ''Unknown''"
    "compliance_pct (extract_requirement_data rnd (Inl e) r) = 0"
    "compliance_pct (extract_requirement_data_detailed rnd (Inl e) r) = 0"
    by (simp_all add: extract_requirement_data_def extract_requirement_data_detailed_def)
  have c1: "status_class (extract_requirement_data rnd doc r) = ''compliant''
      \<or> status_class (extract_requirement_data rnd doc r) = ''partial''
      \<or> status_class (extract_requirement_data rnd doc r) = ''non-compliant''"
  proof (cases doc)
    case (Inl a)
    then show ?thesis by (simp add: extract_requirement_data_def)
  next
    case (Inr b)
    obtain t' p' f' w' where c': "count_checks b = (t', p', f', w')"
      by (cases "count_checks b") auto
    show ?thesis using cls by (simp add: Inr summary_counts [OF c'])
  qed
  have c2: "status_class (extract_requirement_data_detailed rnd doc r) = ''compliant''
      \<or> status_class (extract_requirement_data_detailed rnd doc r) = ''partial''
      \<or> status_class (extract_requirement_data_detailed rnd doc r) = ''non-compliant''"
  proof (cases doc)
    case (Inl a)
    then show ?thesis by (simp add: extract_requirement_data_detailed_def)
  next
    case (Inr b)
    obtain t' p' f' w' where c': "count_checks b = (t', p', f', w')"
      by (cases "count_checks b") auto
    show ?thesis using cls by (simp add: Inr detailed_counts [OF c'])
  qed
  show ?thesis
    using lab cls err c1 c2 by (simp add: summary_counts [OF c] detailed_counts [OF c])
qed

text \<open>
  Claim C7 as stated fails on the error path: the record for a file that could not be
  decoded has the status "Unknown", which is none of the three labels.
\<close>

theorem record_status_labels_counterexample:
  "status (extract_requirement_data id (Inl ''codec error'') ''7'') = ''Unknown''
   \<and> status (extract_requirement_data id (Inl ''codec error'') ''7'') \<noteq> ''Compliant''
   \<and> status (extract_requirement_data id (Inl ''codec error'') ''7'') \<noteq> ''Partially Compliant''
   \<and> status (extract_requirement_data id (Inl ''codec error'') ''7'') \<noteq> ''Non-Compliant''"
  by (simp add: extract_requirement_data_def)

text \<open>
  Claim C8. The critical findings of a record are the first three of its findings, in their
  order. The loop of \<^verbatim>\<open>main\<close> makes the overall list from the files of the batch: for
  every file whose name resolves, in the order of the files, the first three findings of
  its record, each tagged with the identifier; a file with eight findings contributes
  exactly three entries, tagged with its identifier, between the entries of the files
  before it and those of the files after it. The summary shows the first ten entries of the
  overall list in the order of the numeric identifier, the entries of one identifier
  staying in their order; for \<^verbatim>\<open>main\<close> as a whole these are the first ten of the entries
  of the files.
\<close>

theorem critical_findings_cap:
  "critical_findings (extract_requirement_data rnd doc r) =
     take 3 (findings (extract_requirement_data rnd doc r))
   \<and> critical_list (snd (process_reports rnd report_files ([], initial_stats))) =
       concat (map (\<lambda>(filename, doc).
                      (case extract_requirement_number filename of
                         None \<Rightarrow> []
                       | Some n \<Rightarrow>
                           map (\<lambda>f. \<lparr>req = n, finding = f\<rparr>)
                             (take 3 (findings (extract_requirement_data rnd doc n)))))
                 report_files)
   \<and> (extract_requirement_number filename = Some r
        \<and> length (findings (extract_requirement_data rnd doc r)) = 8 \<longrightarrow>
      critical_list (snd (process_reports rnd (before @ [(filename, doc)] @ after)
                            ([], initial_stats))) =
        critical_list (snd (process_reports rnd before ([], initial_stats)))
        @ [\<lparr>req = r, finding = findings (extract_requirement_data rnd doc r) ! 0\<rparr>,
           \<lparr>req = r, finding = findings (extract_requirement_data rnd doc r) ! 1\<rparr>,
           \<lparr>req = r, finding = findings (extract_requirement_data rnd doc r) ! 2\<rparr>]
        @ critical_list (snd (process_reports rnd after ([], initial_stats))))
   \<and> top_findings (generate_summary_html rnd recs ov) =
       take 10 (sort_key (\<lambda>x. int_of_digits (req x)) (critical_list ov))
   \<and> filter (\<lambda>x. int_of_digits (req x) = k)
         (sort_key (\<lambda>x. int_of_digits (req x)) (critical_list ov)) =
       filter (\<lambda>x. int_of_digits (req x) = k) (critical_list ov)
   \<and> length (top_findings (generate_summary_html rnd recs ov)) \<le> 10
   \<and> (report_files \<noteq> [] \<longrightarrow>
      (case main rnd report_files of
         Inl code \<Rightarrow> False
       | Inr (requirements_data, overall, s) \<Rightarrow>
           top_findings s =
             take 10 (sort_key (\<lambda>x. int_of_digits (req x))
               (concat (map (\<lambda>(filename, doc).
                               (case extract_requirement_number filename of
                                  None \<Rightarrow> []
                                | Some n \<Rightarrow>
                                    map (\<lambda>f. \<lparr>req = n, finding = f\<rparr>)
                                      (take 3 (findings (extract_requirement_data rnd doc n)))))
                          report_files)))))"
proof -
  let ?d = "extract_requirement_data rnd doc r"
  have pre: "critical_findings ?d = take 3 (findings ?d)"
    by (rule summary_critical_prefix)
  have crit: "critical_list (snd (process_reports rnd report_files ([], initial_stats))) =
       concat (map (\<lambda>(filename, doc).
                      (case extract_requirement_number filename of
                         None \<Rightarrow> []
                       | Some n \<Rightarrow>
                           map (\<lambda>f. \<lparr>req = n, finding = f\<rparr>)
                             (take 3 (findings (extract_requirement_data rnd doc n)))))
                 report_files)"
    for report_files
    by (rule critical_list_of_files)
  have eight: "extract_requirement_number filename = Some r
        \<and> length (findings ?d) = 8 \<longrightarrow>
      critical_list (snd (process_reports rnd (before @ [(filename, doc)] @ after)
                            ([], initial_stats))) =
        critical_list (snd (process_reports rnd before ([], initial_stats)))
        @ [\<lparr>req = r, finding = findings ?d ! 0\<rparr>, \<lparr>req = r, finding = findings ?d ! 1\<rparr>,
           \<lparr>req = r, finding = findings ?d ! 2\<rparr>]
        @ critical_list (snd (process_reports rnd after ([], initial_stats)))"
    by (simp add: crit take_3_of_8)
  have top: "top_findings (generate_summary_html rnd recs ov) =
       take 10 (sort_key (\<lambda>x. int_of_digits (req x)) (critical_list ov))" for recs ov
    by (rule top_findings_eq)
  have stable: "filter (\<lambda>x. int_of_digits (req x) = k)
         (sort_key (\<lambda>x. int_of_digits (req x)) (critical_list ov)) =
       filter (\<lambda>x. int_of_digits (req x) = k) (critical_list ov)"
    by (rule sort_key_stable)
  have len: "length (top_findings (generate_summary_html rnd recs ov)) \<le> 10"
    by (simp add: top)
  have pipeline: "report_files \<noteq> [] \<longrightarrow>
      (case main rnd report_files of
         Inl code \<Rightarrow> False
       | Inr (requirements_data, overall, s) \<Rightarrow>
           top_findings s =
             take 10 (sort_key (\<lambda>x. int_of_digits (req x))
               (concat (map (\<lambda>(filename, doc).
                               (case extract_requirement_number filename of
                                  None \<Rightarrow> []
                                | Some n \<Rightarrow>
                                    map (\<lambda>f. \<lparr>req = n, finding = f\<rparr>)
                                      (take 3 (findings (extract_requirement_data rnd doc n)))))
                          report_files))))"
    by (simp add: main_summary top crit)
  show ?thesis using pre crit [of report_files] eight top [of recs ov] stable len pipeline
    by blast
qed

text \<open>
  The batch of four files, with the report of eight headings as requirement 4: the loop
  gives five entries, three of them tagged 4, and \<^verbatim>\<open>main\<close> shows them in the order 2, 4,
  10.
\<close>

theorem critical_findings_cap_witness:
  "extract_requirement_number ''pci_req4.html'' = Some ''4''
   \<and> length (findings (extract_requirement_data id (Inr eight_findings) ''4'')) = 8
   \<and> critical_list (snd (process_reports id
        ([(''pci_req2.html'', Inr marker_only)] @ [(''pci_req4.html'', Inr eight_findings)]
         @ [(''notes.html'', Inr ''[FAIL]''), (''pci_req10.html'', Inl ''invalid start byte'')])
        ([], initial_stats))) =
       [\<lparr>req = ''2'', finding = ''Weak cipher''\<rparr>,
        \<lparr>req = ''4'', finding = ''a''\<rparr>, \<lparr>req = ''4'', finding = ''b''\<rparr>,
        \<lparr>req = ''4'', finding = ''c''\<rparr>,
        \<lparr>req = ''10'', finding = ''Error processing report''\<rparr>]
   \<and> mixed_batch \<noteq> []
   \<and> (case main id mixed_batch of
         Inl code \<Rightarrow> False
       | Inr (requirements_data, overall, s) \<Rightarrow>
           top_findings s =
             [\<lparr>req = ''2'', finding = ''Weak cipher''\<rparr>,
              \<lparr>req = ''4'', finding = ''a''\<rparr>, \<lparr>req = ''4'', finding = ''b''\<rparr>,
              \<lparr>req = ''4'', finding = ''c''\<rparr>,
              \<lparr>req = ''10'', finding = ''Error processing report''\<rparr>])"
proof -
  note t = critical_findings_cap [where rnd = id and doc = "Inr eight_findings" and r = "''4''"
      and filename = "''pci_req4.html''" and before = "[(''pci_req2.html'', Inr marker_only)]"
      and after = "[(''notes.html'', Inr ''[FAIL]''), (''pci_req10.html'', Inl ''invalid start byte'')]"
      and report_files = mixed_batch]
  have h1: "extract_requirement_number ''pci_req4.html'' = Some ''4''"
    by code_simp
  have f: "findings (extract_requirement_data id (Inr eight_findings) ''4'') =
      [''a'', ''b'', ''c'', ''d'', ''e'', ''f'', ''g'', ''h'']"
    by code_simp
  have h2: "length (findings (extract_requirement_data id (Inr eight_findings) ''4'')) = 8"
    by (simp add: f)
  have n: "findings (extract_requirement_data id (Inr eight_findings) ''4'') ! 0 = ''a''"
    "findings (extract_requirement_data id (Inr eight_findings) ''4'') ! 1 = ''b''"
    "findings (extract_requirement_data id (Inr eight_findings) ''4'') ! 2 = ''c''"
    by (simp_all add: f)
  have b: "critical_list (snd (process_reports id [(''pci_req2.html'', Inr marker_only)]
        ([], initial_stats))) = [\<lparr>req = ''2'', finding = ''Weak cipher''\<rparr>]"
    by code_simp
  have a: "critical_list (snd (process_reports id
        [(''notes.html'', Inr ''[FAIL]''), (''pci_req10.html'', Inl ''invalid start byte'')]
        ([], initial_stats))) = [\<lparr>req = ''10'', finding = ''Error processing report''\<rparr>]"
    by code_simp
  from t h1 h2 have "critical_list (snd (process_reports id
        ([(''pci_req2.html'', Inr marker_only)] @ [(''pci_req4.html'', Inr eight_findings)]
         @ [(''notes.html'', Inr ''[FAIL]''), (''pci_req10.html'', Inl ''invalid start byte'')])
        ([], initial_stats))) =
      critical_list (snd (process_reports id [(''pci_req2.html'', Inr marker_only)]
        ([], initial_stats)))
      @ [\<lparr>req = ''4'', finding = findings (extract_requirement_data id (Inr eight_findings) ''4'') ! 0\<rparr>,
         \<lparr>req = ''4'', finding = findings (extract_requirement_data id (Inr eight_findings) ''4'') ! 1\<rparr>,
         \<lparr>req = ''4'', finding = findings (extract_requirement_data id (Inr eight_findings) ''4'') ! 2\<rparr>]
      @ critical_list (snd (process_reports id
        [(''notes.html'', Inr ''[FAIL]''), (''pci_req10.html'', Inl ''invalid start byte'')]
        ([], initial_stats)))"
    by blast
  then have c1: "critical_list (snd (process_reports id
        ([(''pci_req2.html'', Inr marker_only)] @ [(''pci_req4.html'', Inr eight_findings)]
         @ [(''notes.html'', Inr ''[FAIL]''), (''pci_req10.html'', Inl ''invalid start byte'')])
        ([], initial_stats))) =
       [\<lparr>req = ''2'', finding = ''Weak cipher''\<rparr>,
        \<lparr>req = ''4'', finding = ''a''\<rparr>, \<lparr>req = ''4'', finding = ''b''\<rparr>,
        \<lparr>req = ''4'', finding = ''c''\<rparr>,
        \<lparr>req = ''10'', finding = ''Error processing report''\<rparr>]"
    by (simp only: a b n append_Cons append_Nil)
  have h3: "mixed_batch \<noteq> []"
    by (simp add: mixed_batch_def)
  have c2: "(case main id mixed_batch of
         Inl code \<Rightarrow> False
       | Inr (requirements_data, overall, s) \<Rightarrow>
           top_findings s =
             [\<lparr>req = ''2'', finding = ''Weak cipher''\<rparr>,
              \<lparr>req = ''4'', finding = ''a''\<rparr>, \<lparr>req = ''4'', finding = ''b''\<rparr>,
              \<lparr>req = ''4'', finding = ''c''\<rparr>,
              \<lparr>req = ''10'', finding = ''Error processing report''\<rparr>])"
    by code_simp
  show ?thesis using h1 h2 c1 h3 c2 by blast
qed

text \<open>
  Claim C9. The rows of the summary are the records sorted by their identifier read as a
  number, ascending, records with the same number keeping their order: the identifiers 2,
  10, 9 come out as 2, 9, 10, while as strings "10" is before both "2" and "9". The
  critical findings shown are in the order of the same key.
\<close>

theorem numeric_sort:
  "req_rows (generate_summary_html rnd recs ov) =
     sort_key (\<lambda>x. int_of_digits (req_num x)) recs
   \<and> sorted (map (\<lambda>x. int_of_digits (req_num x)) (req_rows (generate_summary_html rnd recs ov)))
   \<and> mset (req_rows (generate_summary_html rnd recs ov)) = mset recs
   \<and> filter (\<lambda>x. int_of_digits (req_num x) = k) (req_rows (generate_summary_html rnd recs ov)) =
       filter (\<lambda>x. int_of_digits (req_num x) = k) recs
   \<and> int_of_digits ''2'' = 2 \<and> int_of_digits ''9'' = 9 \<and> int_of_digits ''10'' = 10
   \<and> map req_num (req_rows (generate_summary_html rnd
          [a\<lparr>req_num := ''2''\<rparr>, b\<lparr>req_num := ''10''\<rparr>, c\<lparr>req_num := ''9''\<rparr>] ov)) =
        [''2'', ''9'', ''10'']
   \<and> (''10'', ''2'') \<in> lexord {(a, b). (of_char a :: nat) < of_char b}
   \<and> (''10'', ''9'') \<in> lexord {(a, b). (of_char a :: nat) < of_char b}
   \<and> sorted (map (\<lambda>x. int_of_digits (req x)) (top_findings (generate_summary_html rnd recs ov)))
   \<and> set (top_findings (generate_summary_html rnd recs ov)) \<subseteq> set (critical_list ov)"
proof -
  have rows: "req_rows (generate_summary_html rnd recs ov) =
      sort_key (\<lambda>x. int_of_digits (req_num x)) recs" for recs
    by (simp add: generate_summary_html_def Let_def split: prod.splits)
  have keys: "int_of_digits ''2'' = 2" "int_of_digits ''9'' = 9" "int_of_digits ''10'' = 10"
    by (simp_all add: int_of_digits_def)
  have ex: "map req_num (req_rows (generate_summary_html rnd
          [a\<lparr>req_num := ''2''\<rparr>, b\<lparr>req_num := ''10''\<rparr>, c\<lparr>req_num := ''9''\<rparr>] ov)) =
        [''2'', ''9'', ''10'']"
    by (simp add: rows keys)
  have top: "top_findings (generate_summary_html rnd recs ov) =
       take 10 (sort_key (\<lambda>x. int_of_digits (req x)) (critical_list ov))"
    by (cases "critical_list ov = []")
       (simp_all add: generate_summary_html_def Let_def split: prod.splits)
  have "sorted (map (\<lambda>x. int_of_digits (req x))
                  (sort_key (\<lambda>x. int_of_digits (req x)) (critical_list ov)))"
    by simp
  then have "sorted (take 10 (map (\<lambda>x. int_of_digits (req x))
                  (sort_key (\<lambda>x. int_of_digits (req x)) (critical_list ov))))"
    by (rule sorted_wrt_take)
  then have st: "sorted (map (\<lambda>x. int_of_digits (req x))
      (top_findings (generate_summary_html rnd recs ov)))"
    by (simp add: top take_map)
  have sub: "set (top_findings (generate_summary_html rnd recs ov)) \<subseteq> set (critical_list ov)"
    using set_take_subset [of 10 "sort_key (\<lambda>x. int_of_digits (req x)) (critical_list ov)"]
    by (simp add: top)
  have lex: "(''10'', ''2'') \<in> lexord {(a, b). (of_char a :: nat) < of_char b}"
    "(''10'', ''9'') \<in> lexord {(a, b). (of_char a :: nat) < of_char b}"
    by simp_all
  have stable: "filter (\<lambda>x. int_of_digits (req_num x) = k)
        (sort_key (\<lambda>x. int_of_digits (req_num x)) recs) =
      filter (\<lambda>x. int_of_digits (req_num x) = k) recs"
    by (rule sort_key_stable)
  show ?thesis
    using ex st sub lex stable by (simp add: rows keys)
qed

text \<open>
  Claim C10. \<^verbatim>\<open>count_checks\<close> returns a total of at least 1, so the percentage of a record
  is \<^verbatim>\<open>passed / checks * 100\<close> and never the 0 of the guard, the division is by a nonzero
  number, none of the three counts exceeds the total, and the percentage lies between 0 and
  100.
\<close>

theorem percentage_well_defined:
  assumes "float_rounding rnd"
  shows "case count_checks content of (checks, passed', failed', warnings') \<Rightarrow>
           1 \<le> checks \<and> checks \<noteq> 0
           \<and> passed' \<le> checks \<and> failed' \<le> checks \<and> warnings' \<le> checks
           \<and> compliance_pct (extract_requirement_data rnd (Inr content) r) =
               rnd (rnd (of_nat passed' / of_nat checks) * 100)
           \<and> 0 \<le> compliance_pct (extract_requirement_data rnd (Inr content) r)
           \<and> compliance_pct (extract_requirement_data rnd (Inr content) r) \<le> 100"
proof -
  obtain t p f w where c: "count_checks content = (t, p, f, w)"
    by (cases "count_checks content") auto
  from count_checks_sum [OF c] have pos: "1 \<le> t" and le: "p \<le> t" "f \<le> t" "w \<le> t"
    by simp_all
  have pct: "compliance_percentage rnd p t = rnd (rnd (of_nat p / of_nat t) * 100)"
    using pos by (simp add: compliance_percentage_def)
  have "0 \<le> compliance_percentage rnd p t \<and> compliance_percentage rnd p t \<le> 100"
    using assms le(1) by (rule compliance_percentage_bounds)
  with pct pos le show ?thesis
    by (simp add: c summary_counts [OF c])
qed

text \<open>Two of four checks passed: 50 percent.\<close>

theorem percentage_well_defined_witness:
  "float_rounding id
   \<and> count_checks ''[PASS] [pass] [FAIL] [WARN]'' = (4, 2, 1, 1)
   \<and> compliance_pct (extract_requirement_data id (Inr ''[PASS] [pass] [FAIL] [WARN]'') ''1'') = 50"
proof -
  have c: "count_checks ''[PASS] [pass] [FAIL] [WARN]'' = (4, 2, 1, 1)"
    by code_simp
  show ?thesis
    using percentage_well_defined [OF float_rounding_id, of "''[PASS] [pass] [FAIL] [WARN]''" "''1''"]
    by (simp add: c float_rounding_id)
qed

end
